theory Spec2Isabelle
  imports Main "HOL-Library.Word"
begin

unbundle bit_operations_syntax

section \<open>The JavaScript values the radio code works on\<close>

text \<open>
  A \<^verbatim>\<open>Uint8Array\<close> is a list of 8-bit words. Lengths, offsets and addresses are
  non-negative JavaScript numbers far below \<open>2 ^ 31\<close>; they are natural numbers here.
\<close>

type_synonym byte = "8 word"
type_synonym bytes = "byte list"

text \<open>
  A thrown value. \<open>Error msg\<close> is any instance of \<^verbatim>\<open>Error\<close> (subclasses included) with
  its \<^verbatim>\<open>message\<close>; \<open>NonError str\<close> is a thrown value \<open>v\<close> that is not an \<^verbatim>\<open>Error\<close>, with
  \<^verbatim>\<open>String(v)\<close>.
\<close>

datatype exn = Error (message: string) | NonError string

text \<open>\<^verbatim>\<open>xs.slice(start, stop)\<close> and \<^verbatim>\<open>xs.slice(start)\<close> for non-negative arguments, on typed
  arrays and on strings: both clamp to the length and give the empty result when
  \<open>stop \<le> start\<close>.\<close>

definition slice_js :: "'a list \<Rightarrow> nat \<Rightarrow> nat \<Rightarrow> 'a list" where
  "slice_js xs start stop = take (stop - start) (drop start xs)"

definition slice_js_from :: "'a list \<Rightarrow> nat \<Rightarrow> 'a list" where
  "slice_js_from xs start = drop start xs"

text \<open>\<^verbatim>\<open>xs[i]\<close>: \<open>None\<close> is \<^verbatim>\<open>undefined\<close>, the value of an index out of range.\<close>

definition at :: "'a list \<Rightarrow> nat \<Rightarrow> 'a option" where
  "at xs i = (if i < length xs then Some (xs ! i) else None)"

text \<open>The byte a typed array stores for a value: \<^verbatim>\<open>undefined\<close> becomes \<^verbatim>\<open>NaN\<close>,
  stored as 0.\<close>

definition stored :: "byte option \<Rightarrow> byte" where
  "stored v = (case v of None \<Rightarrow> 0 | Some b \<Rightarrow> b)"

text \<open>\<^verbatim>\<open>target.set(source, offset)\<close>: a \<^verbatim>\<open>RangeError\<close> when the source does not fit
  (the message is the one of V8), the bytes copied otherwise.\<close>

definition u8_set :: "bytes \<Rightarrow> bytes \<Rightarrow> nat \<Rightarrow> exn + bytes" where
  "u8_set target source offset =
     (if length target < offset + length source then Inl (Error ''offset is out of bounds'')
      else Inr (take offset target @ source @ drop (offset + length source) target))"

text \<open>\<^verbatim>\<open>n.toString()\<close> and \<^verbatim>\<open>n.toString(16)\<close> of a non-negative integer.\<close>

definition digit_char :: "nat \<Rightarrow> char" where
  "digit_char d = ''0123456789abcdefghijklmnopqrstuvwxyz'' ! d"

function toStringRadix :: "nat \<Rightarrow> nat \<Rightarrow> string" where
  "toStringRadix radix n =
     (if radix < 2 \<or> n < radix then [digit_char n]
      else toStringRadix radix (n div radix) @ [digit_char (n mod radix)])"
  by pat_completeness auto
termination
  by (relation "measure (\<lambda>(radix, n). n)") auto

declare toStringRadix.simps [simp del]

definition toString10 :: "nat \<Rightarrow> string" where
  "toString10 n = toStringRadix 10 n"

definition toString16 :: "nat \<Rightarrow> string" where
  "toString16 n = toStringRadix 16 n"

text \<open>\<^verbatim>\<open>s.padStart(width, c)\<close> with a one-character filler.\<close>

definition padStart :: "string \<Rightarrow> nat \<Rightarrow> char \<Rightarrow> string" where
  "padStart s width c = replicate (width - length s) c @ s"

text \<open>\<^verbatim>\<open>parseInt(c, 10)\<close> of one character of a string (\<open>None\<close> is \<^verbatim>\<open>NaN\<close>, also for
  \<^verbatim>\<open>undefined\<close>), and the 32-bit integer the bit operators take from it.\<close>

definition parseInt10 :: "char option \<Rightarrow> nat option" where
  "parseInt10 c =
     (case c of
        None \<Rightarrow> None
      | Some ch \<Rightarrow>
          (if (48::nat) \<le> of_char ch \<and> of_char ch \<le> (57::nat) then Some (of_char ch - 48)
           else None))"

definition toInt32 :: "nat option \<Rightarrow> nat" where
  "toInt32 v = (case v of None \<Rightarrow> 0 | Some n \<Rightarrow> n)"

section \<open>Computations with state and exceptions\<close>

text \<open>
  An \<^verbatim>\<open>async\<close> function of the source is a function from the state before the call to
  the state after it and either the thrown value (\<open>Inl\<close>) or the result (\<open>Inr\<close>).
\<close>

type_synonym ('s, 'a) act = "'s \<Rightarrow> 's \<times> (exn + 'a)"

definition ret :: "'a \<Rightarrow> ('s, 'a) act" where
  "ret x s = (s, Inr x)"

definition throw :: "exn \<Rightarrow> ('s, 'a) act" where
  "throw e s = (s, Inl e)"

definition bind :: "('s, 'a) act \<Rightarrow> ('a \<Rightarrow> ('s, 'b) act) \<Rightarrow> ('s, 'b) act" where
  "bind m f s = (case m s of (s', Inl e) \<Rightarrow> (s', Inl e) | (s', Inr x) \<Rightarrow> f x s')"

definition seq :: "('s, unit) act \<Rightarrow> ('s, 'b) act \<Rightarrow> ('s, 'b) act" where
  "seq m k = bind m (\<lambda>_. k)"

section \<open>Scenario layer of the BF-888: \<^verbatim>\<open>src/scenarios/bf888.ts\<close>\<close>

definition CHANNEL_COUNT :: nat where "CHANNEL_COUNT = 16"
definition CHANNEL_SIZE :: nat where "CHANNEL_SIZE = 16"
definition CHANNEL_BASE :: nat where "CHANNEL_BASE = 0x0010"
definition RX_FREQ_OFFSET :: nat where "RX_FREQ_OFFSET = 0"
definition TX_FREQ_OFFSET :: nat where "TX_FREQ_OFFSET = 4"
definition RX_TONE_OFFSET :: nat where "RX_TONE_OFFSET = 8"
definition TX_TONE_OFFSET :: nat where "TX_TONE_OFFSET = 10"
definition FLAGS_OFFSET :: nat where "FLAGS_OFFSET = 12"
definition TRAILER_OFFSET :: nat where "TRAILER_OFFSET = 13"
definition BASE_FREQUENCY_HZ :: nat where "BASE_FREQUENCY_HZ = 462000000"
definition CHANNEL_STEP_HZ :: nat where "CHANNEL_STEP_HZ = 12500"
definition MEM_SIZE :: nat where "MEM_SIZE = 0x03e0"

lemmas scenario_consts =
  CHANNEL_COUNT_def CHANNEL_SIZE_def CHANNEL_BASE_def RX_FREQ_OFFSET_def TX_FREQ_OFFSET_def
  RX_TONE_OFFSET_def TX_TONE_OFFSET_def FLAGS_OFFSET_def TRAILER_OFFSET_def
  BASE_FREQUENCY_HZ_def CHANNEL_STEP_HZ_def MEM_SIZE_def

text \<open>\<^verbatim>\<open>Math.round(freqHz / 10)\<close> for a non-negative integer \<open>freqHz\<close>: the quotient is
  rounded to the nearest integer, a half upwards.\<close>

definition round_div10 :: "nat \<Rightarrow> nat" where
  "round_div10 freqHz = (freqHz + 5) div 10"

text \<open>The loop of \<^verbatim>\<open>encodeLbcdFrequency\<close>. \<open>digits\<close> has at least 8 characters, so the
  indices \<^verbatim>\<open>digits.length - 2 * (i + 1)\<close> are not negative for \<open>i < 4\<close>.\<close>

function encodeLbcd_loop :: "string \<Rightarrow> nat \<Rightarrow> bytes \<Rightarrow> bytes" where
  "encodeLbcd_loop digits i bytes =
     (if i < 4 then
        (let pair = slice_js digits (length digits - 2 * (i + 1)) (length digits - 2 * i);
             high = parseInt10 (at pair 0);
             low = parseInt10 (at pair 1)
         in encodeLbcd_loop digits (i + 1)
              (bytes[i := of_nat (push_bit 4 (toInt32 high) OR toInt32 low)]))
      else bytes)"
  by pat_completeness auto
termination
  by (relation "measure (\<lambda>(digits, i, bytes). 4 - i)") auto

declare encodeLbcd_loop.simps [simp del]

definition encodeLbcdFrequency :: "nat \<Rightarrow> bytes" where
  "encodeLbcdFrequency freqHz =
     (let val = round_div10 freqHz;
          digits = padStart (toString10 val) 8 (CHR ''0'');
          bytes = replicate 4 0
      in encodeLbcd_loop digits 0 bytes)"

definition isEmptyChannel :: "bytes \<Rightarrow> bool" where
  "isEmptyChannel slot \<longleftrightarrow>
     at slot 0 = Some 0xff \<and> at slot 1 = Some 0xff \<and> at slot 2 = Some 0xff \<and> at slot 3 = Some 0xff"

subsection \<open>The store of typed arrays\<close>

text \<open>
  \<^verbatim>\<open>synthesizeFullCodeplug\<close> takes a reference to an array and returns a reference to
  an array. The store is the list of all arrays allocated so far, a reference is an index
  into it, and a new array is put at the end.
\<close>

type_synonym ref = nat
type_synonym heap = "bytes list"

definition deref :: "heap \<Rightarrow> ref \<Rightarrow> bytes" where
  "deref h r = h ! r"

text \<open>\<^verbatim>\<open>new Uint8Array(xs)\<close>: a fresh array with a copy of the bytes.\<close>

definition alloc :: "bytes \<Rightarrow> (heap, ref) act" where
  "alloc xs h = (h @ [xs], Inr (length h))"

text \<open>\<^verbatim>\<open>image.set(source, offset)\<close> and \<^verbatim>\<open>image[i] = v\<close> (a store beyond the end of a
  typed array is ignored) on the array a reference points to.\<close>

definition h_set :: "ref \<Rightarrow> bytes \<Rightarrow> nat \<Rightarrow> (heap, unit) act" where
  "h_set r source offset h =
     (case u8_set (deref h r) source offset of
        Inl e \<Rightarrow> (h, Inl e)
      | Inr xs \<Rightarrow> (h[r := xs], Inr ()))"

definition h_store :: "ref \<Rightarrow> nat \<Rightarrow> byte \<Rightarrow> (heap, unit) act" where
  "h_store r i v h = (h[r := (deref h r)[i := v]], Inr ())"

text \<open>The body of the channel loop of \<^verbatim>\<open>synthesizeFullCodeplug\<close>, and the loop.\<close>

definition synth_channel :: "ref \<Rightarrow> byte \<Rightarrow> bytes \<Rightarrow> nat \<Rightarrow> (heap, unit) act" where
  "synth_channel img flags trailer channel =
     (let offset = CHANNEL_BASE + channel * CHANNEL_SIZE;
          frequencyHz = BASE_FREQUENCY_HZ + channel * CHANNEL_STEP_HZ;
          freqBytes = encodeLbcdFrequency frequencyHz
      in seq (h_set img freqBytes (offset + RX_FREQ_OFFSET))
        (seq (h_set img freqBytes (offset + TX_FREQ_OFFSET))
        (seq (h_store img (offset + RX_TONE_OFFSET) 0xff)
        (seq (h_store img (offset + RX_TONE_OFFSET + 1) 0xff)
        (seq (h_store img (offset + TX_TONE_OFFSET) 0xff)
        (seq (h_store img (offset + TX_TONE_OFFSET + 1) 0xff)
        (seq (h_store img (offset + FLAGS_OFFSET) flags)
             (h_set img trailer (offset + TRAILER_OFFSET)))))))))"

function synth_loop :: "ref \<Rightarrow> byte \<Rightarrow> bytes \<Rightarrow> nat \<Rightarrow> (heap, unit) act" where
  "synth_loop img flags trailer channel h =
     (if channel < CHANNEL_COUNT then
        (case synth_channel img flags trailer channel h of
           (h', Inl e) \<Rightarrow> (h', Inl e)
         | (h', Inr u) \<Rightarrow> synth_loop img flags trailer (channel + 1) h')
      else (h, Inr ()))"
  by pat_completeness auto
termination
  by (relation "measure (\<lambda>(img, flags, trailer, channel, h). CHANNEL_COUNT - channel)") auto

declare synth_loop.simps [simp del]

definition synthesizeFullCodeplug :: "ref \<Rightarrow> (heap, ref) act" where
  "synthesizeFullCodeplug base h =
     (if length (deref h base) < MEM_SIZE then
        throw (Error (''Unexpected codeplug length: '' @ toString10 (length (deref h base)))) h
      else
        bind (alloc (deref h base)) (\<lambda>img.
          let template = slice_js (deref h base) CHANNEL_BASE (CHANNEL_BASE + CHANNEL_SIZE);
              templateEmpty = isEmptyChannel template;
              flags = (if templateEmpty then 0x00 else stored (at template FLAGS_OFFSET));
              trailer = (if templateEmpty then [0x00, 0x00, 0x00]
                         else slice_js template TRAILER_OFFSET (TRAILER_OFFSET + 3))
          in seq (synth_loop img flags trailer 0) (ret img)) h)"

section \<open>The transport and the drivers' common state: \<^verbatim>\<open>src/core.ts\<close>\<close>

text \<open>
  The environment of a driver is its \<^verbatim>\<open>RadioBackend\<close> and the clock and timer of the
  JavaScript runtime. Its state \<open>'s\<close> is arbitrary; each operation takes the state before
  the call and gives the state after it.

  \<^verbatim>\<open>readExactly(length, timeoutMs)\<close> resolves with exactly \<open>length\<close> bytes or rejects
  (\<^verbatim>\<open>NodeSerialBackend\<close> and \<^verbatim>\<open>WebSerialBackend\<close> both return
  \<^verbatim>\<open>pending.slice(0, length)\<close> once \<^verbatim>\<open>pending.length >= length\<close>). The transport
  therefore hands over the bytes as a function of the index, of which \<open>readExactly\<close>
  takes the first \<open>length\<close>: every index below the requested length is in range.
\<close>

record 's env =
  tr_open :: "('s, unit) act"
  tr_close :: "('s, unit) act"
  tr_write :: "bytes \<Rightarrow> ('s, unit) act"
  tr_read :: "nat \<Rightarrow> nat \<Rightarrow> 's \<Rightarrow> 's \<times> (exn + (nat \<Rightarrow> byte))"
  clock_now :: "'s \<Rightarrow> nat"
  timer_delay :: "nat \<Rightarrow> 's \<Rightarrow> 's"

definition readExactly :: "'s env \<Rightarrow> nat \<Rightarrow> nat \<Rightarrow> ('s, bytes) act" where
  "readExactly ev n timeoutMs s =
     (case tr_read ev n timeoutMs s of
        (s', Inl e) \<Rightarrow> (s', Inl e)
      | (s', Inr f) \<Rightarrow> (s', Inr (map f [0..<n])))"

text \<open>
  The fields both driver classes have. \<open>backend\<close> is the state of \<^verbatim>\<open>this.backend\<close> and
  of the runtime; \<open>log\<close> is the \<^verbatim>\<open>log\<close> callback, which acts on that state.
\<close>

record 's driver =
  backend :: 's
  connected :: bool
  dryRun :: bool
  log :: "string \<Rightarrow> 's \<Rightarrow> 's"

definition on_backend :: "('s, 'a) act \<Rightarrow> (('s, 'm) driver_scheme, 'a) act" where
  "on_backend m d = (case m (backend d) of (s', r) \<Rightarrow> (d\<lparr>backend := s'\<rparr>, r))"

definition do_log :: "string \<Rightarrow> (('s, 'm) driver_scheme, unit) act" where
  "do_log msg d = (d\<lparr>backend := log d msg (backend d)\<rparr>, Inr ())"

definition delay :: "'s env \<Rightarrow> nat \<Rightarrow> (('s, 'm) driver_scheme, unit) act" where
  "delay ev ms d = (d\<lparr>backend := timer_delay ev ms (backend d)\<rparr>, Inr ())"

definition Date_now :: "'s env \<Rightarrow> ('s, 'm) driver_scheme \<Rightarrow> nat" where
  "Date_now ev d = clock_now ev (backend d)"

definition set_connected :: "bool \<Rightarrow> (('s, 'm) driver_scheme, unit) act" where
  "set_connected b d = (d\<lparr>connected := b\<rparr>, Inr ())"

text \<open>\<^verbatim>\<open>ensureConnected\<close>, the same in both drivers.\<close>

definition ensureConnected :: "(('s, 'm) driver_scheme, unit) act" where
  "ensureConnected d =
     (if \<not> connected d then throw (Error ''Radio is not connected. Call connect() first.'') d
      else ret () d)"

text \<open>\<^verbatim>\<open>p.catch(() => undefined)\<close>: a rejection is swallowed.\<close>

definition swallow :: "('s, unit) act \<Rightarrow> ('s, unit) act" where
  "swallow m s = (case m s of (s', r) \<Rightarrow> (s', Inr ()))"

text \<open>\<^verbatim>\<open>try { m } catch (err) { h(err) }\<close>.\<close>

definition try_catch :: "('s, 'a) act \<Rightarrow> (exn \<Rightarrow> ('s, 'a) act) \<Rightarrow> ('s, 'a) act" where
  "try_catch m h s = (case m s of (s', Inl e) \<Rightarrow> h e s' | (s', Inr x) \<Rightarrow> (s', Inr x))"

subsection \<open>Strings and frames\<close>

definition ACK :: byte where "ACK = 0x06"

text \<open>\<^verbatim>\<open>xs.join(sep)\<close>.\<close>

fun join_js :: "string \<Rightarrow> string list \<Rightarrow> string" where
  "join_js sep [] = []"
| "join_js sep [x] = x"
| "join_js sep (x # y # ys) = x @ sep @ join_js sep (y # ys)"

definition bufferToHex :: "bytes \<Rightarrow> string" where
  "bufferToHex data = join_js '' '' (map (\<lambda>b. padStart (toString16 (unat b)) 2 (CHR ''0'')) data)"

text \<open>\<^verbatim>\<open>Buffer.from(command, 'binary')\<close> and \<^verbatim>\<open>TextEncoder.encode\<close> on ASCII text: the
  character codes. \<^verbatim>\<open>Buffer.toString('ascii')\<close>: the characters of the low seven bits.\<close>

definition encodeCommand :: "string \<Rightarrow> bytes" where
  "encodeCommand command = map of_char command"

definition asciiEncode :: "string \<Rightarrow> bytes" where
  "asciiEncode val = map of_char val"

definition decodeAscii :: "bytes \<Rightarrow> string" where
  "decodeAscii data = map (\<lambda>b. char_of (unat b AND 0x7f)) data"

definition startsWith :: "string \<Rightarrow> string \<Rightarrow> bool" where
  "startsWith s p \<longleftrightarrow> take (length p) s = p"

text \<open>\<^verbatim>\<open>err instanceof Error ? err.message : String(err)\<close>.\<close>

definition error_text :: "exn \<Rightarrow> string" where
  "error_text err = (case err of Error m \<Rightarrow> m | NonError str \<Rightarrow> str)"

text \<open>
  A regular expression that is an alternative of literal words, with the flag \<^verbatim>\<open>i\<close>:
  \<^verbatim>\<open>/w1|w2|.../i.test(s)\<close> holds when some word occurs in \<open>s\<close>, letters compared without
  regard to case. Characters are compared by their codes, capitals moved to small letters.
\<close>

definition fold_case :: "char \<Rightarrow> nat" where
  "fold_case c = (if (65::nat) \<le> of_char c \<and> of_char c \<le> (90::nat) then of_char c + 32 else of_char c)"

fun occurs_ci :: "string \<Rightarrow> string \<Rightarrow> bool" where
  "occurs_ci word [] = (word = [])"
| "occurs_ci word (c # cs) =
     (map fold_case (take (length word) (c # cs)) = map fold_case word \<or> occurs_ci word cs)"

definition regex_words_ci :: "string list \<Rightarrow> string \<Rightarrow> bool" where
  "regex_words_ci ws s = list_ex (\<lambda>w. occurs_ci w s) ws"

section \<open>The BF-888 driver: \<^verbatim>\<open>src/drivers/bf888.ts\<close>\<close>

text \<open>
  \<^verbatim>\<open>readUntilAck\<close> loops until an ACK arrives or the clock passes a deadline. Whether
  it returns depends on the transport and the clock, so the functions that call it give
  an option: \<open>None\<close> is a call that never returns.
\<close>

type_synonym ('s, 'a) pact = "'s \<Rightarrow> ('s \<times> (exn + 'a)) option"

definition lift :: "('s, 'a) act \<Rightarrow> ('s, 'a) pact" where
  "lift m s = Some (m s)"

definition pret :: "'a \<Rightarrow> ('s, 'a) pact" where
  "pret x s = Some (s, Inr x)"

definition pthrow :: "exn \<Rightarrow> ('s, 'a) pact" where
  "pthrow e s = Some (s, Inl e)"

definition pbind :: "('s, 'a) pact \<Rightarrow> ('a \<Rightarrow> ('s, 'b) pact) \<Rightarrow> ('s, 'b) pact" where
  "pbind m f s =
     (case m s of
        None \<Rightarrow> None
      | Some (s', Inl e) \<Rightarrow> Some (s', Inl e)
      | Some (s', Inr x) \<Rightarrow> f x s')"

definition pseq :: "('s, unit) pact \<Rightarrow> ('s, 'b) pact \<Rightarrow> ('s, 'b) pact" where
  "pseq m k = pbind m (\<lambda>_. k)"

definition ptry_catch :: "('s, 'a) pact \<Rightarrow> (exn \<Rightarrow> ('s, 'a) pact) \<Rightarrow> ('s, 'a) pact" where
  "ptry_catch m h s =
     (case m s of
        None \<Rightarrow> None
      | Some (s', Inl e) \<Rightarrow> h e s'
      | Some (s', Inr x) \<Rightarrow> Some (s', Inr x))"

definition BF888_BLOCK_SIZE :: nat where "BF888_BLOCK_SIZE = 8"
definition BF888_MEM_SIZE :: nat where "BF888_MEM_SIZE = 0x03e0"
definition IDENT_PREFIX :: string where "IDENT_PREFIX = ''P3107''"

definition WRITE_RANGES :: "(nat \<times> nat) list" where
  "WRITE_RANGES = [(0x0000, 0x0110), (0x02b0, 0x02c0), (0x0380, 0x03e0)]"

text \<open>A \<^verbatim>\<open>ChecksumValidator\<close> returns or throws: \<open>None\<close> or the thrown value.\<close>

type_synonym ChecksumValidator = "bytes \<Rightarrow> exn option"

record 's BF888Driver = "'s driver" +
  checksumValidators :: "ChecksumValidator list"

record 's BF888DriverOptions =
  opt_dryRun :: "bool option"
  opt_log :: "(string \<Rightarrow> 's \<Rightarrow> 's) option"
  opt_checksumValidators :: "ChecksumValidator list option"

text \<open>The constructor; \<open>console_log\<close> is \<^verbatim>\<open>console.log\<close>.\<close>

definition BF888Driver_new ::
  "(string \<Rightarrow> 's \<Rightarrow> 's) \<Rightarrow> 's \<Rightarrow> 's BF888DriverOptions \<Rightarrow> 's BF888Driver" where
  "BF888Driver_new console_log bk options =
     (let dry = (case opt_dryRun options of None \<Rightarrow> False | Some b \<Rightarrow> b);
          shouldLog = (dry \<or> opt_log options \<noteq> None)
      in \<lparr>backend = bk, connected = False, dryRun = dry,
          log = (case opt_log options of
                   Some f \<Rightarrow> f
                 | None \<Rightarrow> (if shouldLog then console_log else (\<lambda>msg s. s))),
          checksumValidators =
            (case opt_checksumValidators options of None \<Rightarrow> [] | Some vs \<Rightarrow> vs)\<rparr>)"

definition buildHeader :: "char \<Rightarrow> nat \<Rightarrow> nat \<Rightarrow> bytes" where
  "buildHeader command address len =
     [of_char command, of_nat (drop_bit 8 address AND 0xff), of_nat (address AND 0xff),
      of_nat (len AND 0xff)]"

function buffersEqual_loop :: "bytes \<Rightarrow> bytes \<Rightarrow> nat \<Rightarrow> bool" where
  "buffersEqual_loop a b i =
     (if i < length a then
        (if at a i \<noteq> at b i then False else buffersEqual_loop a b (i + 1))
      else True)"
  by pat_completeness auto
termination
  by (relation "measure (\<lambda>(a, b, i). length a - i)") auto

declare buffersEqual_loop.simps [simp del]

definition buffersEqual :: "bytes \<Rightarrow> bytes \<Rightarrow> bool" where
  "buffersEqual a b = (if length a \<noteq> length b then False else buffersEqual_loop a b 0)"

text \<open>
  \<^verbatim>\<open>readUntilAck\<close>: the loop \<^verbatim>\<open>while (Date.now() < deadline)\<close>, with the bytes seen so
  far. The one byte read is \<open>data ! 0\<close>.
\<close>

partial_function (option) readUntilAck_loop ::
  "'s env \<Rightarrow> string \<Rightarrow> nat \<Rightarrow> bytes \<Rightarrow> ('s, 'm) driver_scheme
     \<Rightarrow> (('s, 'm) driver_scheme \<times> (exn + unit)) option" where
  "readUntilAck_loop ev ctx deadline seen d =
     (if Date_now ev d < deadline then
        (case on_backend (readExactly ev 1 (max 1 (deadline - Date_now ev d))) d of
           (d', Inl err) \<Rightarrow>
             Some (d', Inl (Error (''Failed waiting for ACK after '' @ ctx @ '': '' @ error_text err)))
         | (d', Inr data) \<Rightarrow>
             (if data ! 0 = ACK then Some (d', Inr ())
              else readUntilAck_loop ev ctx deadline (seen @ [data ! 0]) d'))
      else
        Some (d, Inl (Error (''Timed out waiting for ACK after '' @ ctx @ ''. Saw: '' @
                 join_js '' '' (map (\<lambda>byte. ''0x'' @ toString16 (unat byte)) seen)))))"

definition readUntilAck :: "'s env \<Rightarrow> string \<Rightarrow> nat \<Rightarrow> (('s, 'm) driver_scheme, unit) pact" where
  "readUntilAck ev ctx timeoutMs d = readUntilAck_loop ev ctx (Date_now ev d + timeoutMs) [] d"



definition BF888_disconnect :: "'s env \<Rightarrow> ('s BF888Driver, unit) act" where
  "BF888_disconnect ev d =
     (if \<not> connected d then ret () d
      else seq (on_backend (tr_write ev (encodeCommand ''E'')))
          (seq (on_backend (tr_close ev))
               (set_connected False)) d)"

definition BF888_readBlock :: "'s env \<Rightarrow> nat \<Rightarrow> nat \<Rightarrow> ('s BF888Driver, bytes) pact" where
  "BF888_readBlock ev address len =
     pseq (lift (on_backend (tr_write ev (buildHeader (CHR ''R'') address len))))
    (pbind (lift (on_backend (readExactly ev (4 + len) 2000))) (\<lambda>response.
       let header = slice_js response 0 4;
           expected = buildHeader (CHR ''W'') address len
       in if \<not> buffersEqual header expected then
            pthrow (Error (''Unexpected block header at 0x'' @ toString16 address @ '': '' @
                      bufferToHex header))
          else
            (let data = slice_js_from response 4
             in pseq (lift (on_backend (tr_write ev [ACK])))
               (pseq (readUntilAck ev (''read 0x'' @ toString16 address) 2000)
                     (pret data)))))"

definition BF888_writeBlock :: "'s env \<Rightarrow> nat \<Rightarrow> bytes \<Rightarrow> ('s BF888Driver, unit) pact" where
  "BF888_writeBlock ev address data =
     (if length data \<noteq> BF888_BLOCK_SIZE then
        pthrow (Error (''Invalid block size: '' @ toString10 (length data)))
      else
        (let header = buildHeader (CHR ''W'') address (length data);
             payload = header @ data
         in pseq (lift (on_backend (tr_write ev payload)))
                 (readUntilAck ev (''write 0x'' @ toString16 address) 2000)))"

function BF888_readCodeplug_loop :: "'s env \<Rightarrow> nat \<Rightarrow> bytes \<Rightarrow> ('s BF888Driver, bytes) pact" where
  "BF888_readCodeplug_loop ev addr buffer d =
     (if addr < BF888_MEM_SIZE then
        (case BF888_readBlock ev addr BF888_BLOCK_SIZE d of
           None \<Rightarrow> None
         | Some (d', Inl e) \<Rightarrow> Some (d', Inl e)
         | Some (d', Inr block) \<Rightarrow>
             (case u8_set buffer block addr of
                Inl e \<Rightarrow> Some (d', Inl e)
              | Inr buffer' \<Rightarrow> BF888_readCodeplug_loop ev (addr + BF888_BLOCK_SIZE) buffer' d'))
      else Some (d, Inr buffer))"
  by pat_completeness auto
termination
  by (relation "measure (\<lambda>(ev, addr, buffer, d). BF888_MEM_SIZE - addr)")
    (auto simp: BF888_BLOCK_SIZE_def)

declare BF888_readCodeplug_loop.simps [simp del]

definition BF888_readCodeplug :: "'s env \<Rightarrow> ('s BF888Driver, bytes) pact" where
  "BF888_readCodeplug ev =
     pseq (lift ensureConnected)
       (BF888_readCodeplug_loop ev 0 (replicate BF888_MEM_SIZE 0))"

fun validateChecksums :: "ChecksumValidator list \<Rightarrow> bytes \<Rightarrow> ('d, unit) act" where
  "validateChecksums [] data = ret ()"
| "validateChecksums (validator # rest) data =
     (case validator data of
        Some e \<Rightarrow> throw e
      | None \<Rightarrow> validateChecksums rest data)"

function BF888_writeRange_loop ::
  "'s env \<Rightarrow> bytes \<Rightarrow> nat \<Rightarrow> nat \<Rightarrow> ('s BF888Driver, unit) pact" where
  "BF888_writeRange_loop ev data stop addr d =
     (if addr < stop then
        (let block = slice_js data addr (addr + BF888_BLOCK_SIZE)
         in if dryRun d then
              (case do_log (''DRY-RUN write 0x'' @ padStart (toString16 addr) 4 (CHR ''0'') @
                             '': '' @ bufferToHex block) d of
                 (d', r) \<Rightarrow> BF888_writeRange_loop ev data stop (addr + BF888_BLOCK_SIZE) d')
            else
              (case BF888_writeBlock ev addr block d of
                 None \<Rightarrow> None
               | Some (d', Inl e) \<Rightarrow> Some (d', Inl e)
               | Some (d', Inr u) \<Rightarrow>
                   BF888_writeRange_loop ev data stop (addr + BF888_BLOCK_SIZE) d'))
      else Some (d, Inr ()))"
  by pat_completeness auto
termination
  by (relation "measure (\<lambda>(ev, data, stop, addr, d). stop - addr)")
    (auto simp: BF888_BLOCK_SIZE_def)

declare BF888_writeRange_loop.simps [simp del]

fun BF888_writeRanges :: "'s env \<Rightarrow> bytes \<Rightarrow> (nat \<times> nat) list \<Rightarrow> ('s BF888Driver, unit) pact" where
  "BF888_writeRanges ev data [] = pret ()"
| "BF888_writeRanges ev data ((start, stop) # ranges) =
     pseq (BF888_writeRange_loop ev data stop start) (BF888_writeRanges ev data ranges)"

definition BF888_writeCodeplug :: "'s env \<Rightarrow> bytes \<Rightarrow> ('s BF888Driver, unit) pact" where
  "BF888_writeCodeplug ev data =
     pseq (lift ensureConnected)
    (pseq (if length data < BF888_MEM_SIZE
           then pthrow (Error (''Codeplug is too small: '' @ toString10 (length data) @ '' bytes''))
           else pret ())
    (pseq (\<lambda>d. lift (validateChecksums (checksumValidators d) data) d)
          (BF888_writeRanges ev data WRITE_RANGES)))"

subsection \<open>The earlier revision of the driver, with a single-byte ACK read\<close>

text \<open>
  The second text of \<^verbatim>\<open>src/drivers/bf888.ts\<close>: \<^verbatim>\<open>connect\<close> has no
  \<^verbatim>\<open>try\<close>/\<^verbatim>\<open>catch\<close>, and every acknowledgement is one call of \<^verbatim>\<open>readByte\<close>.
  Nothing in it loops without bound.
\<close>

definition readByte :: "'s env \<Rightarrow> ('s BF888Driver, byte) act" where
  "readByte ev = bind (on_backend (readExactly ev 1 2000)) (\<lambda>data. ret (data ! 0))"

definition BF888_strict_connect :: "'s env \<Rightarrow> ('s BF888Driver, unit) act" where
  "BF888_strict_connect ev =
     seq (on_backend (tr_open ev))
    (seq (on_backend (tr_write ev (encodeCommand (CHR 0x02 # ''PROGRAM''))))
    (bind (readByte ev) (\<lambda>ack.
     seq (if ack \<noteq> ACK
          then throw (Error (''Unexpected ACK after PROGRAM: 0x'' @ toString16 (unat ack)))
          else ret ())
    (seq (on_backend (tr_write ev [0x02]))
    (bind (on_backend (readExactly ev 8 2000)) (\<lambda>identBytes.
       let ident = decodeAscii identBytes
       in seq (if \<not> startsWith ident IDENT_PREFIX
               then throw (Error (''Unexpected ident string: '' @ ident))
               else ret ())
         (seq (on_backend (tr_write ev [ACK]))
         (bind (readByte ev) (\<lambda>ack2.
          seq (if ack2 \<noteq> ACK
               then throw (Error (''Unexpected ACK after ident: 0x'' @ toString16 (unat ack2)))
               else ret ())
              (set_connected True))))))))))"

definition BF888_strict_disconnect :: "'s env \<Rightarrow> ('s BF888Driver, unit) act" where
  "BF888_strict_disconnect ev d =
     (if \<not> connected d then ret () d
      else seq (on_backend (tr_write ev (encodeCommand ''E'')))
          (seq (on_backend (tr_close ev))
               (set_connected False)) d)"

definition BF888_strict_readBlock :: "'s env \<Rightarrow> nat \<Rightarrow> nat \<Rightarrow> ('s BF888Driver, bytes) act" where
  "BF888_strict_readBlock ev address len =
     seq (on_backend (tr_write ev (buildHeader (CHR ''R'') address len)))
    (bind (on_backend (readExactly ev (4 + len) 2000)) (\<lambda>response.
       let header = slice_js response 0 4;
           expected = buildHeader (CHR ''W'') address len
       in if \<not> buffersEqual header expected then
            throw (Error (''Unexpected block header at 0x'' @ toString16 address @ '': '' @
                     bufferToHex header))
          else
            (let data = slice_js_from response 4
             in seq (on_backend (tr_write ev [ACK]))
               (bind (readByte ev) (\<lambda>ack.
                  if ack \<noteq> ACK
                  then throw (Error (''Unexpected ACK after read: 0x'' @ toString16 (unat ack)))
                  else ret data)))))"


function BF888_strict_readCodeplug_loop ::
  "'s env \<Rightarrow> nat \<Rightarrow> bytes \<Rightarrow> ('s BF888Driver, bytes) act" where
  "BF888_strict_readCodeplug_loop ev addr buffer d =
     (if addr < BF888_MEM_SIZE then
        (case BF888_strict_readBlock ev addr BF888_BLOCK_SIZE d of
           (d', Inl e) \<Rightarrow> (d', Inl e)
         | (d', Inr block) \<Rightarrow>
             (case u8_set buffer block addr of
                Inl e \<Rightarrow> (d', Inl e)
              | Inr buffer' \<Rightarrow>
                  BF888_strict_readCodeplug_loop ev (addr + BF888_BLOCK_SIZE) buffer' d'))
      else (d, Inr buffer))"
  by pat_completeness auto
termination
  by (relation "measure (\<lambda>(ev, addr, buffer, d). BF888_MEM_SIZE - addr)")
    (auto simp: BF888_BLOCK_SIZE_def)

declare BF888_strict_readCodeplug_loop.simps [simp del]

definition BF888_strict_readCodeplug :: "'s env \<Rightarrow> ('s BF888Driver, bytes) act" where
  "BF888_strict_readCodeplug ev =
     seq ensureConnected
       (BF888_strict_readCodeplug_loop ev 0 (replicate BF888_MEM_SIZE 0))"

section \<open>The KT-8900 driver: \<^verbatim>\<open>src/drivers/kt8900.ts\<close>\<close>

definition ACK_ALT :: byte where "ACK_ALT = 0x05"
definition KT8900_MEM_SIZE :: nat where "KT8900_MEM_SIZE = 0x4000"
definition UPLOAD_MEM_SIZE :: nat where "UPLOAD_MEM_SIZE = 0x3100"
definition KT8900_BLOCK_SIZE :: nat where "KT8900_BLOCK_SIZE = 0x40"
definition TX_BLOCK_SIZE :: nat where "TX_BLOCK_SIZE = 0x10"
definition IDENT_LENGTH :: nat where "IDENT_LENGTH = 50"
definition EXTRA_ID_ADDR :: nat where "EXTRA_ID_ADDR = 0x3df0"
definition EXTRA_ID_LEN :: nat where "EXTRA_ID_LEN = 16"

definition MAGIC :: bytes where
  "MAGIC = [0x55, 0x20, 0x15, 0x09, 0x16, 0x45, 0x4d, 0x02]"

definition FILE_IDS :: "bytes list" where
  "FILE_IDS = map asciiEncode
     [''M29154'', ''M2C234'', ''M2G1F4'', ''M2G2F4'', ''M2G304'', ''M2G314'', ''M2G424'',
      ''M27184'', ''M2C194'']"

type_synonym 's KT8900Driver = "'s driver"

record 's KT8900DriverOptions =
  kt_opt_dryRun :: "bool option"
  kt_opt_log :: "(string \<Rightarrow> 's \<Rightarrow> 's) option"

definition KT8900Driver_new ::
  "(string \<Rightarrow> 's \<Rightarrow> 's) \<Rightarrow> 's \<Rightarrow> 's KT8900DriverOptions \<Rightarrow> 's KT8900Driver" where
  "KT8900Driver_new console_log bk options =
     (let dry = (case kt_opt_dryRun options of None \<Rightarrow> False | Some b \<Rightarrow> b);
          shouldLog = (dry \<or> kt_opt_log options \<noteq> None)
      in \<lparr>backend = bk, connected = False, dryRun = dry,
          log = (case kt_opt_log options of
                   Some f \<Rightarrow> f
                 | None \<Rightarrow> (if shouldLog then console_log else (\<lambda>msg s. s)))\<rparr>)"

text \<open>\<^verbatim>\<open>buildFrame\<close>; the optional \<^verbatim>\<open>data\<close> is an option.\<close>

definition buildFrame :: "char \<Rightarrow> nat \<Rightarrow> nat \<Rightarrow> bytes option \<Rightarrow> bytes" where
  "buildFrame command address len data =
     (let header = [ACK, of_char command, of_nat (drop_bit 8 address AND 0xff),
                    of_nat (address AND 0xff), of_nat (len AND 0xff)]
      in case data of
           None \<Rightarrow> header
         | Some payload \<Rightarrow> (if length payload = 0 then header else header @ payload))"

function containsSubarray_match :: "bytes \<Rightarrow> bytes \<Rightarrow> nat \<Rightarrow> nat \<Rightarrow> bool" where
  "containsSubarray_match haystack needle i j =
     (if j < length needle then
        (if at haystack (i + j) \<noteq> at needle j then False
         else containsSubarray_match haystack needle i (j + 1))
      else True)"
  by pat_completeness auto
termination
  by (relation "measure (\<lambda>(haystack, needle, i, j). length needle - j)") auto

declare containsSubarray_match.simps [simp del]

function containsSubarray_loop :: "bytes \<Rightarrow> bytes \<Rightarrow> nat \<Rightarrow> bool" where
  "containsSubarray_loop haystack needle i =
     (if i \<le> length haystack - length needle then
        (if containsSubarray_match haystack needle i 0 then True
         else containsSubarray_loop haystack needle (i + 1))
      else False)"
  by pat_completeness auto
termination
  by (relation "measure (\<lambda>(haystack, needle, i). Suc (length haystack - length needle) - i)") auto

declare containsSubarray_loop.simps [simp del]

definition containsSubarray :: "bytes \<Rightarrow> bytes \<Rightarrow> bool" where
  "containsSubarray haystack needle =
     (if length needle = 0 \<or> length haystack < length needle then False
      else containsSubarray_loop haystack needle 0)"

definition isTimeoutError :: "exn \<Rightarrow> bool" where
  "isTimeoutError err =
     (case err of NonError str \<Rightarrow> False | Error msg \<Rightarrow> regex_words_ci [''Timeout''] msg)"

definition isRetryableIdentError :: "exn \<Rightarrow> bool" where
  "isRetryableIdentError err =
     (case err of
        NonError str \<Rightarrow> False
      | Error msg \<Rightarrow> regex_words_ci [''Timeout'', ''ACK'', ''ident'', ''upload''] msg)"

text \<open>\<^verbatim>\<open>readOptionalAck\<close>: at most \<open>maxBytes\<close> single-byte reads; a timeout ends the
  loop, any other rejection is thrown on.\<close>

function readOptionalAck_loop ::
  "'s env \<Rightarrow> nat \<Rightarrow> nat \<Rightarrow> nat \<Rightarrow> bytes \<Rightarrow> ('s, bytes) act" where
  "readOptionalAck_loop ev maxBytes deadline i out s =
     (if i < maxBytes then
        (case readExactly ev 1 (max 1 (deadline - clock_now ev s)) s of
           (s', Inr byte) \<Rightarrow> readOptionalAck_loop ev maxBytes deadline (i + 1) (out @ [byte ! 0]) s'
         | (s', Inl err) \<Rightarrow> (if isTimeoutError err then (s', Inr out) else (s', Inl err)))
      else (s, Inr out))"
  by pat_completeness auto
termination
  by (relation "measure (\<lambda>(ev, maxBytes, deadline, i, out, s). maxBytes - i)") auto

declare readOptionalAck_loop.simps [simp del]

definition readOptionalAck :: "'s env \<Rightarrow> nat \<Rightarrow> nat \<Rightarrow> ('s, bytes) act" where
  "readOptionalAck ev maxBytes timeoutMs s =
     readOptionalAck_loop ev maxBytes (clock_now ev s + timeoutMs) 0 [] s"

definition KT8900_connect :: "'s env \<Rightarrow> ('s KT8900Driver, unit) act" where
  "KT8900_connect ev = seq (on_backend (tr_open ev)) (set_connected True)"

definition KT8900_disconnect :: "'s env \<Rightarrow> ('s KT8900Driver, unit) act" where
  "KT8900_disconnect ev d =
     (if \<not> connected d then ret () d
      else seq (on_backend (tr_close ev)) (set_connected False) d)"

definition identifyOnce :: "'s env \<Rightarrow> bool \<Rightarrow> ('s KT8900Driver, unit) act" where
  "identifyOnce ev upload =
     seq (do_log ''KT8900: sending magic'')
    (seq (on_backend (tr_write ev MAGIC))
    (bind (on_backend (readExactly ev IDENT_LENGTH 2000)) (\<lambda>ident.
     seq (if ident ! 0 \<noteq> ACK
          then throw (Error (''Bad ACK from radio: 0x'' @ toString16 (unat (ident ! 0))))
          else ret ())
    (seq (if length ident \<noteq> IDENT_LENGTH
          then throw (Error (''Short ident block: '' @ toString10 (length ident) @ '' bytes''))
          else ret ())
    (seq (if \<not> list_ex (\<lambda>id. containsSubarray ident id) FILE_IDS
          then throw (Error ''Radio identification failed. Unsupported KT8900 ident.'')
          else ret ())
    (seq (delay ev 100)
    (seq (on_backend (tr_write ev (buildFrame (CHR ''S'') EXTRA_ID_ADDR EXTRA_ID_LEN None)))
    (bind (on_backend (readExactly ev (1 + 4 + EXTRA_ID_LEN) 2000)) (\<lambda>extra.
     let extraAck = extra ! 0
     in seq (if extraAck \<noteq> ACK \<and> extraAck \<noteq> ACK_ALT
             then throw (Error (''Bad ACK for extra ID block: 0x'' @ toString16 (unat extraAck)))
             else ret ())
       (seq (if length extra < 1 + 4 + EXTRA_ID_LEN
             then throw (Error (''Extra ID block is short: '' @ toString10 (length extra) @
                                '' bytes''))
             else ret ())
            (if upload then
               seq (delay ev 300)
              (seq (on_backend (tr_write ev [ACK]))
              (bind (on_backend (readOptionalAck ev 2 500)) (\<lambda>ack.
                 if length ack = 0 \<or> at ack (length ack - 1) \<noteq> Some ACK
                 then throw (Error ''Radio did not ACK upload mode'')
                 else ret ())))
             else ret ())))))))))))"

text \<open>\<^verbatim>\<open>identifyWithRetry\<close>: the loop over \<open>attempt\<close>, from 1, with \<open>attempts = 3\<close>.\<close>

definition attempts :: nat where "attempts = 3"

function identifyWithRetry_loop :: "'s env \<Rightarrow> bool \<Rightarrow> nat \<Rightarrow> ('s KT8900Driver, unit) act" where
  "identifyWithRetry_loop ev upload attempt d =
     (if attempt \<le> attempts then
        (case identifyOnce ev upload d of
           (d', Inr u) \<Rightarrow> (d', Inr ())
         | (d', Inl err) \<Rightarrow>
             (if attempt \<ge> attempts \<or> \<not> isRetryableIdentError err then (d', Inl err)
              else
                identifyWithRetry_loop ev upload (attempt + 1)
                  (fst (seq (do_log (''KT8900: ident failed (attempt '' @ toString10 attempt @
                                     ''), retrying...''))
                            (delay ev 500) d'))))
      else (d, Inr ()))"
  by pat_completeness auto
termination
  by (relation "measure (\<lambda>(ev, upload, attempt, d). Suc attempts - attempt)") auto

declare identifyWithRetry_loop.simps [simp del]

definition identifyWithRetry :: "'s env \<Rightarrow> bool \<Rightarrow> ('s KT8900Driver, unit) act" where
  "identifyWithRetry ev upload = identifyWithRetry_loop ev upload 1"

definition KT8900_readBlock :: "'s env \<Rightarrow> nat \<Rightarrow> nat \<Rightarrow> ('s KT8900Driver, bytes) act" where
  "KT8900_readBlock ev address len =
     seq (on_backend (tr_write ev (buildFrame (CHR ''S'') address len None)))
    (bind (on_backend (readExactly ev (1 + 4 + len) 2000)) (\<lambda>response.
     seq (if response ! 0 \<noteq> ACK
          then throw (Error (''Bad ACK for read at 0x'' @ toString16 address))
          else ret ())
         (let cmd = response ! 1;
              addr = push_bit 8 (unat (response ! 2)) OR unat (response ! 3);
              size = unat (response ! 4)
          in if cmd \<noteq> of_char (CHR ''X'') \<or> addr \<noteq> address \<or> size \<noteq> len then
               throw (Error (''Invalid header for block 0x'' @ toString16 address @ '': '' @
                        bufferToHex (slice_js response 1 5)))
             else ret (slice_js_from response 5))))"

definition KT8900_writeBlock :: "'s env \<Rightarrow> nat \<Rightarrow> bytes \<Rightarrow> bool \<Rightarrow> ('s KT8900Driver, unit) act" where
  "KT8900_writeBlock ev address data omitLeadingAck =
     (if length data \<noteq> TX_BLOCK_SIZE then
        throw (Error (''Invalid block size: '' @ toString10 (length data)))
      else
        (let frame = buildFrame (CHR ''X'') address (length data) (Some data);
             frame = (if omitLeadingAck then slice_js_from frame 1 else frame)
         in seq (on_backend (tr_write ev frame))
           (bind (on_backend (readExactly ev 1 1000)) (\<lambda>ack.
              if ack ! 0 \<noteq> ACK \<and> ack ! 0 \<noteq> ACK_ALT then
                throw (Error (''Bad ACK writing block 0x'' @ toString16 address @ '': 0x'' @
                         toString16 (unat (ack ! 0))))
              else ret ()))))"

function KT8900_readCodeplug_loop :: "'s env \<Rightarrow> nat \<Rightarrow> bytes \<Rightarrow> ('s KT8900Driver, bytes) act" where
  "KT8900_readCodeplug_loop ev addr buffer d =
     (if addr < KT8900_MEM_SIZE then
        (case KT8900_readBlock ev addr KT8900_BLOCK_SIZE d of
           (d', Inl e) \<Rightarrow> (d', Inl e)
         | (d', Inr block) \<Rightarrow>
             (case u8_set buffer block addr of
                Inl e \<Rightarrow> (d', Inl e)
              | Inr buffer' \<Rightarrow> KT8900_readCodeplug_loop ev (addr + KT8900_BLOCK_SIZE) buffer' d'))
      else (d, Inr buffer))"
  by pat_completeness auto
termination
  by (relation "measure (\<lambda>(ev, addr, buffer, d). KT8900_MEM_SIZE - addr)")
    (auto simp: KT8900_BLOCK_SIZE_def)

declare KT8900_readCodeplug_loop.simps [simp del]

definition KT8900_readCodeplug :: "'s env \<Rightarrow> ('s KT8900Driver, bytes) act" where
  "KT8900_readCodeplug ev =
     seq ensureConnected
    (seq (identifyWithRetry ev False)
         (KT8900_readCodeplug_loop ev 0 (replicate KT8900_MEM_SIZE 0)))"

function KT8900_writeCodeplug_loop :: "'s env \<Rightarrow> bytes \<Rightarrow> nat \<Rightarrow> ('s KT8900Driver, unit) act" where
  "KT8900_writeCodeplug_loop ev data addr d =
     (if addr < UPLOAD_MEM_SIZE then
        (let block = slice_js data addr (addr + TX_BLOCK_SIZE)
         in if dryRun d then
              (case do_log (''DRY-RUN write 0x'' @ padStart (toString16 addr) 4 (CHR ''0'') @
                             '': '' @ bufferToHex block) d of
                 (d', r) \<Rightarrow> KT8900_writeCodeplug_loop ev data (addr + TX_BLOCK_SIZE) d')
            else
              (case KT8900_writeBlock ev addr block (addr = 0) d of
                 (d', Inl e) \<Rightarrow> (d', Inl e)
               | (d', Inr u) \<Rightarrow> KT8900_writeCodeplug_loop ev data (addr + TX_BLOCK_SIZE) d'))
      else (d, Inr ()))"
  by pat_completeness auto
termination
  by (relation "measure (\<lambda>(ev, data, addr, d). UPLOAD_MEM_SIZE - addr)")
    (auto simp: TX_BLOCK_SIZE_def)

declare KT8900_writeCodeplug_loop.simps [simp del]

definition KT8900_writeCodeplug :: "'s env \<Rightarrow> bytes \<Rightarrow> ('s KT8900Driver, unit) act" where
  "KT8900_writeCodeplug ev data =
     seq ensureConnected
    (seq (if length data < UPLOAD_MEM_SIZE
          then throw (Error (''Codeplug is too small: '' @ toString10 (length data) @ '' bytes''))
          else ret ())
    (seq (identifyWithRetry ev True)
         (KT8900_writeCodeplug_loop ev data 0)))"

section \<open>Transports to run the drivers against\<close>

subsection \<open>A scripted, recording transport\<close>

text \<open>
  Every call is recorded. A \<^verbatim>\<open>readExactly\<close> takes the next reply of the script: the
  milliseconds it takes and the rejection or the bytes it resolves with. With the script
  used up it waits for the whole timeout and rejects as \<^verbatim>\<open>NodeSerialBackend\<close> and
  \<^verbatim>\<open>WebSerialBackend\<close> do. \<open>open_error\<close> is what \<^verbatim>\<open>open\<close> rejects with, if it does.
\<close>

datatype io_call = Open | Close | Write bytes | Read nat nat | Sleep nat

record script =
  replies :: "(nat \<times> (exn + bytes)) list"
  calls :: "io_call list"
  time :: nat

definition timeout_error :: "nat \<Rightarrow> exn" where
  "timeout_error n = Error (''Timeout waiting for '' @ toString10 n @ '' bytes'')"

definition bytes_fn :: "bytes \<Rightarrow> nat \<Rightarrow> byte" where
  "bytes_fn bs i = (if i < length bs then bs ! i else 0)"

definition script_read :: "nat \<Rightarrow> nat \<Rightarrow> script \<Rightarrow> script \<times> (exn + (nat \<Rightarrow> byte))" where
  "script_read n timeoutMs s =
     (case replies s of
        [] \<Rightarrow>
          (s\<lparr>calls := calls s @ [Read n timeoutMs], time := time s + timeoutMs\<rparr>,
           Inl (timeout_error n))
      | (ms, r) # rest \<Rightarrow>
          (s\<lparr>replies := rest, calls := calls s @ [Read n timeoutMs], time := time s + ms\<rparr>,
           (case r of Inl e \<Rightarrow> Inl e | Inr bs \<Rightarrow> Inr (bytes_fn bs))))"

definition scripted_env :: "exn option \<Rightarrow> script env" where
  "scripted_env open_error =
     \<lparr>tr_open = (\<lambda>s. (s\<lparr>calls := calls s @ [Open]\<rparr>,
                      (case open_error of None \<Rightarrow> Inr () | Some e \<Rightarrow> Inl e))),
      tr_close = (\<lambda>s. (s\<lparr>calls := calls s @ [Close]\<rparr>, Inr ())),
      tr_write = (\<lambda>data s. (s\<lparr>calls := calls s @ [Write data]\<rparr>, Inr ())),
      tr_read = script_read,
      clock_now = time,
      timer_delay = (\<lambda>ms s. s\<lparr>calls := calls s @ [Sleep ms], time := time s + ms\<rparr>)\<rparr>"

text \<open>A driver on the scripted transport, as its constructor makes it without options.\<close>

definition no_log :: "string \<Rightarrow> 's \<Rightarrow> 's" where
  "no_log msg s = s"

definition script_start :: "(nat \<times> (exn + bytes)) list \<Rightarrow> script" where
  "script_start rs = \<lparr>replies = rs, calls = [], time = 0\<rparr>"

definition bf888_on :: "'s \<Rightarrow> bool \<Rightarrow> 's BF888Driver" where
  "bf888_on bk c = \<lparr>backend = bk, connected = c, dryRun = False, log = no_log,
                    checksumValidators = []\<rparr>"

definition kt8900_on :: "'s \<Rightarrow> bool \<Rightarrow> 's KT8900Driver" where
  "kt8900_on bk c = \<lparr>backend = bk, connected = c, dryRun = False, log = no_log\<rparr>"

subsection \<open>Simulated radios\<close>

text \<open>
  A radio with a memory image. It answers each frame the host writes by queueing bytes
  for the host to read; \<open>sent\<close> keeps the frames the host wrote. A \<^verbatim>\<open>readExactly\<close> of
  more bytes than are queued times out.
\<close>

record radio =
  rx :: bytes
  mem :: bytes
  sent :: "bytes list"

definition frame_addr :: "byte \<Rightarrow> byte \<Rightarrow> nat" where
  "frame_addr hi lo = unat hi * 256 + unat lo"

definition radio_read :: "nat \<Rightarrow> nat \<Rightarrow> radio \<Rightarrow> radio \<times> (exn + (nat \<Rightarrow> byte))" where
  "radio_read n timeoutMs s =
     (if n \<le> length (rx s) then (s\<lparr>rx := drop n (rx s)\<rparr>, Inr (bytes_fn (rx s)))
      else (s, Inl (timeout_error n)))"

definition radio_env :: "(bytes \<Rightarrow> bytes \<Rightarrow> bytes) \<Rightarrow> radio env" where
  "radio_env reply =
     \<lparr>tr_open = (\<lambda>s. (s, Inr ())),
      tr_close = (\<lambda>s. (s, Inr ())),
      tr_write = (\<lambda>frame s. (s\<lparr>rx := rx s @ reply (mem s) frame, sent := sent s @ [frame]\<rparr>, Inr ())),
      tr_read = radio_read,
      clock_now = (\<lambda>s. 0),
      timer_delay = (\<lambda>ms s. s)\<rparr>"

text \<open>
  The BF-888: a read frame \<open>['R', hi, lo, len]\<close> is answered with \<open>['W', hi, lo, len]\<close>
  and the \<open>len\<close> bytes of the memory at that address, an ACK with an ACK.
\<close>

fun bf888_reply :: "bytes \<Rightarrow> bytes \<Rightarrow> bytes" where
  "bf888_reply m [c, hi, lo, n] =
     (if c = of_char (CHR ''R'')
      then [of_char (CHR ''W''), hi, lo, n] @
           slice_js m (frame_addr hi lo) (frame_addr hi lo + unat n)
      else [])"
| "bf888_reply m [a] = (if a = ACK then [ACK] else [])"
| "bf888_reply m frame = []"

definition bf888_radio :: "radio env" where
  "bf888_radio = radio_env bf888_reply"

text \<open>
  The KT-8900: the magic is answered with a 50-byte identification (an ACK, the first
  fingerprint, padding), a read frame \<open>[0x06, 'S', hi, lo, len]\<close> with
  \<open>[0x06, 'X', hi, lo, len]\<close> and the \<open>len\<close> bytes of the memory at that address, an ACK
  with an ACK, and a write frame \<open>'X'\<close>, with or without the leading ACK, with the byte
  \<open>wack\<close>.
\<close>

definition kt8900_ident :: bytes where
  "kt8900_ident = ACK # asciiEncode ''M29154'' @ replicate 43 0xff"

fun is_x_frame :: "bytes \<Rightarrow> bool" where
  "is_x_frame (c # hi # lo # n # payload) = (c = of_char (CHR ''X'') \<and> length payload = unat n)"
| "is_x_frame frame = False"

definition kt8900_reply :: "byte \<Rightarrow> bytes \<Rightarrow> bytes \<Rightarrow> bytes" where
  "kt8900_reply wack m frame =
     (if frame = MAGIC then kt8900_ident
      else if frame = [ACK] then [ACK]
      else if length frame = 5 \<and> frame ! 0 = ACK \<and> frame ! 1 = of_char (CHR ''S'') then
        [ACK, of_char (CHR ''X''), frame ! 2, frame ! 3, frame ! 4] @
        slice_js m (frame_addr (frame ! 2) (frame ! 3))
          (frame_addr (frame ! 2) (frame ! 3) + unat (frame ! 4))
      else if is_x_frame frame \<or> (frame \<noteq> [] \<and> hd frame = ACK \<and> is_x_frame (tl frame)) then [wack]
      else [])"

definition kt8900_radio :: "byte \<Rightarrow> radio env" where
  "kt8900_radio wack = radio_env (kt8900_reply wack)"

definition radio_start :: "bytes \<Rightarrow> radio" where
  "radio_start m = \<lparr>rx = [], mem = m, sent = []\<rparr>"

text \<open>
  The radio once the host has written the frames \<open>frames\<close> and read every answer, and a
  driver on that radio.
\<close>

definition heard :: "bytes list \<Rightarrow> radio \<Rightarrow> radio" where
  "heard frames s = s\<lparr>sent := sent s @ frames, rx := []\<rparr>"

definition after_frames :: "bytes list \<Rightarrow> (radio, 'm) driver_scheme \<Rightarrow> (radio, 'm) driver_scheme" where
  "after_frames frames d = d\<lparr>backend := heard frames (backend d)\<rparr>"

section \<open>What the specification says, as definitions\<close>

text \<open>
  The 4-byte binary-coded-decimal field of a value: its last eight decimal digits, two to
  a byte (the higher digit in the high nibble), the least significant pair first.
\<close>

definition lbcd_spec :: "nat \<Rightarrow> bytes" where
  "lbcd_spec v =
     map (\<lambda>i. of_nat (16 * ((v div 10 ^ (2 * i + 1)) mod 10) + (v div 10 ^ (2 * i)) mod 10))
       [0, 1, 2, 3]"

text \<open>
  The 16-byte record a synthesized channel holds: the frequency twice, both tones unset,
  the flags and the trailer; the flags and the trailer \<^verbatim>\<open>synthesizeFullCodeplug\<close> takes
  from a base image, and the image it is to give: the base with the 16 records put in.
\<close>

definition channel_record :: "byte \<Rightarrow> bytes \<Rightarrow> nat \<Rightarrow> bytes" where
  "channel_record flags trailer channel =
     (let f = encodeLbcdFrequency (BASE_FREQUENCY_HZ + channel * CHANNEL_STEP_HZ)
      in f @ f @ [0xff, 0xff, 0xff, 0xff] @ [flags] @ trailer)"

definition channel_records :: "byte \<Rightarrow> bytes \<Rightarrow> nat \<Rightarrow> bytes" where
  "channel_records flags trailer n = concat (map (channel_record flags trailer) [0..<n])"

definition synth_flags :: "bytes \<Rightarrow> byte" where
  "synth_flags b = (if isEmptyChannel (slice_js b 16 32) then 0 else stored (at (slice_js b 16 32) 12))"

definition synth_trailer :: "bytes \<Rightarrow> bytes" where
  "synth_trailer b =
     (if isEmptyChannel (slice_js b 16 32) then [0, 0, 0] else slice_js (slice_js b 16 32) 13 16)"

definition synth_image :: "bytes \<Rightarrow> bytes" where
  "synth_image b = take 16 b @ channel_records (synth_flags b) (synth_trailer b) 16 @ drop 272 b"

text \<open>
  The frame of the KT-8900 upload for block \<open>k\<close> of an image: \<open>['X', hi, lo, 0x10]\<close> and
  the 16 bytes of the block, after a leading \<open>0x06\<close> for every block but the first.
\<close>

definition upload_frame :: "bytes \<Rightarrow> nat \<Rightarrow> bytes" where
  "upload_frame data k =
     (if k = 0 then [] else [0x06]) @
     [of_char (CHR ''X''), of_nat ((16 * k) div 256), of_nat ((16 * k) mod 256), 0x10] @
     take 16 (drop (16 * k) data)"

text \<open>
  A computation keeps \<open>connected\<close> when no outcome of it changes the field, and keeps it
  on failure when no throwing outcome does.
\<close>

definition keeps :: "(('s, 'm) driver_scheme, 'a) pact \<Rightarrow> bool" where
  "keeps m \<longleftrightarrow> (\<forall>d d' r. m d = Some (d', r) \<longrightarrow> connected d' = connected d)"


text \<open>
  The driver after the log line and the fixed delay of 500 ms that \<^verbatim>\<open>identifyWithRetry\<close>
  puts between a failed attempt and the next one.
\<close>

definition retry_pause :: "'s env \<Rightarrow> nat \<Rightarrow> 's KT8900Driver \<Rightarrow> 's KT8900Driver" where
  "retry_pause ev attempt d =
     d\<lparr>backend := timer_delay ev 500
          (log d (''KT8900: ident failed (attempt '' @ toString10 attempt @ ''), retrying...'')
             (backend d))\<rparr>"

section \<open>Properties of the scenario layer\<close>

subsection \<open>The frequency encoder\<close>

lemma replicate4: "replicate 4 x = [x, x, x, x]"
  by (simp add: numeral_eq_Suc)

lemma length_encodeLbcd_loop: "length (encodeLbcd_loop d i bs) = length bs"
  by (induction d i bs rule: encodeLbcd_loop.induct)
    (subst encodeLbcd_loop.simps, simp add: Let_def)

lemma length_encodeLbcdFrequency [simp]: "length (encodeLbcdFrequency f) = 4"
  by (simp add: encodeLbcdFrequency_def Let_def length_encodeLbcd_loop)

lemma encodeLbcd_loop_8digits:
  "encodeLbcd_loop [d7, d6, d5, d4, d3, d2, d1, d0] 0 [0, 0, 0, 0] =
     [of_nat (push_bit 4 (toInt32 (parseInt10 (Some d1))) OR toInt32 (parseInt10 (Some d0))),
      of_nat (push_bit 4 (toInt32 (parseInt10 (Some d3))) OR toInt32 (parseInt10 (Some d2))),
      of_nat (push_bit 4 (toInt32 (parseInt10 (Some d5))) OR toInt32 (parseInt10 (Some d4))),
      of_nat (push_bit 4 (toInt32 (parseInt10 (Some d7))) OR toInt32 (parseInt10 (Some d6)))]"
  by (simp add: encodeLbcd_loop.simps slice_js_def at_def Let_def)

text \<open>The encoder on the sixteen channel frequencies, and the fields the specification
  asks for.\<close>

lemma encode_channel_values:
  "encodeLbcdFrequency 462000000 = [0x00, 0x00, 0x20, 0x46]"
  "encodeLbcdFrequency 462012500 = [0x50, 0x12, 0x20, 0x46]"
  "encodeLbcdFrequency 462025000 = [0x00, 0x25, 0x20, 0x46]"
  "encodeLbcdFrequency 462037500 = [0x50, 0x37, 0x20, 0x46]"
  "encodeLbcdFrequency 462050000 = [0x00, 0x50, 0x20, 0x46]"
  "encodeLbcdFrequency 462062500 = [0x50, 0x62, 0x20, 0x46]"
  "encodeLbcdFrequency 462075000 = [0x00, 0x75, 0x20, 0x46]"
  "encodeLbcdFrequency 462087500 = [0x50, 0x87, 0x20, 0x46]"
  "encodeLbcdFrequency 462100000 = [0x00, 0x00, 0x21, 0x46]"
  "encodeLbcdFrequency 462112500 = [0x50, 0x12, 0x21, 0x46]"
  "encodeLbcdFrequency 462125000 = [0x00, 0x25, 0x21, 0x46]"
  "encodeLbcdFrequency 462137500 = [0x50, 0x37, 0x21, 0x46]"
  "encodeLbcdFrequency 462150000 = [0x00, 0x50, 0x21, 0x46]"
  "encodeLbcdFrequency 462162500 = [0x50, 0x62, 0x21, 0x46]"
  "encodeLbcdFrequency 462175000 = [0x00, 0x75, 0x21, 0x46]"
  "encodeLbcdFrequency 462187500 = [0x50, 0x87, 0x21, 0x46]"
  unfolding encodeLbcdFrequency_def Let_def replicate4
  by (simp_all add: round_div10_def toString10_def toStringRadix.simps digit_char_def
      padStart_def encodeLbcd_loop_8digits parseInt10_def toInt32_def)

lemma lbcd_spec_channel_values:
  "lbcd_spec 46200000 = [0x00, 0x00, 0x20, 0x46]"
  "lbcd_spec 46201250 = [0x50, 0x12, 0x20, 0x46]"
  "lbcd_spec 46202500 = [0x00, 0x25, 0x20, 0x46]"
  "lbcd_spec 46203750 = [0x50, 0x37, 0x20, 0x46]"
  "lbcd_spec 46205000 = [0x00, 0x50, 0x20, 0x46]"
  "lbcd_spec 46206250 = [0x50, 0x62, 0x20, 0x46]"
  "lbcd_spec 46207500 = [0x00, 0x75, 0x20, 0x46]"
  "lbcd_spec 46208750 = [0x50, 0x87, 0x20, 0x46]"
  "lbcd_spec 46210000 = [0x00, 0x00, 0x21, 0x46]"
  "lbcd_spec 46211250 = [0x50, 0x12, 0x21, 0x46]"
  "lbcd_spec 46212500 = [0x00, 0x25, 0x21, 0x46]"
  "lbcd_spec 46213750 = [0x50, 0x37, 0x21, 0x46]"
  "lbcd_spec 46215000 = [0x00, 0x50, 0x21, 0x46]"
  "lbcd_spec 46216250 = [0x50, 0x62, 0x21, 0x46]"
  "lbcd_spec 46217500 = [0x00, 0x75, 0x21, 0x46]"
  "lbcd_spec 46218750 = [0x50, 0x87, 0x21, 0x46]"
  by (simp_all add: lbcd_spec_def)

lemma channel_index_cases:
  "channel < (16::nat) \<Longrightarrow> channel = 0 \<or> channel = 1 \<or> channel = 2 \<or> channel = 3 \<or> channel = 4 \<or> channel = 5 \<or> channel = 6 \<or> channel = 7 \<or> channel = 8 \<or> channel = 9 \<or> channel = 10 \<or> channel = 11 \<or> channel = 12 \<or> channel = 13 \<or> channel = 14 \<or> channel = 15"
  by arith

lemma encode_channel_is_lbcd:
  assumes "i < 16"
  shows "encodeLbcdFrequency (BASE_FREQUENCY_HZ + i * CHANNEL_STEP_HZ) =
         lbcd_spec ((BASE_FREQUENCY_HZ + i * CHANNEL_STEP_HZ) div 10)"
  using channel_index_cases [OF assms] unfolding BASE_FREQUENCY_HZ_def CHANNEL_STEP_HZ_def
  by (elim disjE) (simp_all add: encode_channel_values lbcd_spec_channel_values)

subsection \<open>What \<^verbatim>\<open>synthesizeFullCodeplug\<close> returns\<close>

lemma h_set_ok:
  "img < length h \<Longrightarrow> off + length src \<le> length (h ! img) \<Longrightarrow>
   h_set img src off h =
     (h[img := take off (h ! img) @ src @ drop (off + length src) (h ! img)], Inr ())"
  by (simp add: h_set_def u8_set_def deref_def)

lemma h_store_ok:
  "img < length h \<Longrightarrow> i < length (h ! img) \<Longrightarrow>
   h_store img i v h = (h[img := take i (h ! img) @ [v] @ drop (Suc i) (h ! img)], Inr ())"
  by (simp add: h_store_def deref_def upd_conv_take_nth_drop)

lemma seq_ok: "m s = (s', Inr ()) \<Longrightarrow> seq m k s = k s'"
  by (simp add: seq_def bind_def)

lemma write_channel:
  assumes "img < length h" "off + 16 \<le> length (h ! img)" "length F = 4" "length tr = 3"
  shows "seq (h_set img F (off + 0))
        (seq (h_set img F (off + 4))
        (seq (h_store img (off + 8) 0xff)
        (seq (h_store img (off + 8 + 1) 0xff)
        (seq (h_store img (off + 10) 0xff)
        (seq (h_store img (off + 10 + 1) 0xff)
        (seq (h_store img (off + 12) fl)
             (h_set img tr (off + 13)))))))) h
     = (h[img := take off (h ! img) @ (F @ F @ [0xff, 0xff, 0xff, 0xff] @ [fl] @ tr) @
                 drop (off + 16) (h ! img)], Inr ())"
  using assms
  apply (subst seq_ok[OF h_set_ok]; simp?)
  apply (subst seq_ok[OF h_set_ok]; simp?)
  apply (subst seq_ok[OF h_store_ok]; simp?)
  apply (subst seq_ok[OF h_store_ok]; simp?)
  apply (subst seq_ok[OF h_store_ok]; simp?)
  apply (subst seq_ok[OF h_store_ok]; simp?)
  apply (subst seq_ok[OF h_store_ok]; simp?)
  apply (subst h_set_ok; simp?)
  apply (simp add: add.commute)
  done

lemma length_channel_record [simp]:
  "length tr = 3 \<Longrightarrow> length (channel_record fl tr c) = 16"
  by (simp add: channel_record_def Let_def)

lemma synth_channel_ok:
  assumes "img < length h" "16 + 16 * c + 16 \<le> length (h ! img)" "length tr = 3"
  shows "synth_channel img fl tr c h =
     (h[img := take (16 + 16 * c) (h ! img) @ channel_record fl tr c @
               drop (16 + 16 * c + 16) (h ! img)], Inr ())"
  unfolding synth_channel_def Let_def scenario_consts channel_record_def
  using write_channel[OF assms(1) _ _ assms(3), of "16 + c * 16"
      "encodeLbcdFrequency (462000000 + c * 12500)" fl] assms(2)
  by (simp add: mult.commute)

lemma length_channel_records [simp]:
  "length tr = 3 \<Longrightarrow> length (channel_records fl tr n) = 16 * n"
  by (induction n) (simp_all add: channel_records_def)

lemma channel_records_Suc:
  "channel_records fl tr (Suc n) = channel_records fl tr n @ channel_record fl tr n"
  by (simp add: channel_records_def)

lemma synth_loop_ok:
  assumes "img < length h" "length tr = 3" "272 \<le> length b" "c \<le> 16"
    and "h ! img = take 16 b @ channel_records fl tr c @ drop (16 + 16 * c) b"
  shows "synth_loop img fl tr c h =
     (h[img := take 16 b @ channel_records fl tr 16 @ drop 272 b], Inr ())"
  using assms
proof (induction "16 - c" arbitrary: c h)
  case 0
  then have "c = 16" by simp
  with 0 show ?case
    by (subst synth_loop.simps) (simp add: CHANNEL_COUNT_def list_update_same_conv[THEN iffD2])
next
  case (Suc n)
  then have c: "c < 16" by simp
  let ?xs = "h ! img"
  have len: "length ?xs = length b"
    using Suc.prems c by simp
  have step: "synth_channel img fl tr c h =
     (h[img := take (16 + 16 * c) ?xs @ channel_record fl tr c @ drop (16 + 16 * c + 16) ?xs],
      Inr ())"
    using Suc.prems c len by (intro synth_channel_ok) simp_all
  have tk: "take (16 + 16 * c) ?xs = take 16 b @ channel_records fl tr c"
    using Suc.prems c by simp
  have dr: "drop (16 + 16 * c + 16) ?xs = drop (16 + 16 * Suc c) b"
    using Suc.prems c by simp
  let ?h' = "h[img := take 16 b @ channel_records fl tr (Suc c) @ drop (16 + 16 * Suc c) b]"
  have step': "synth_channel img fl tr c h = (?h', Inr ())"
    unfolding step tk dr channel_records_Suc by simp
  have "synth_loop img fl tr (Suc c) ?h' =
      (?h'[img := take 16 b @ channel_records fl tr 16 @ drop 272 b], Inr ())"
    using Suc.prems Suc.hyps c by (intro Suc.hyps(1)) simp_all
  then show ?case
    using c by (subst synth_loop.simps) (simp add: CHANNEL_COUNT_def step')
qed

lemma length_synth_trailer [simp]: "992 \<le> length b \<Longrightarrow> length (synth_trailer b) = 3"
  by (simp add: synth_trailer_def slice_js_def)

lemma synthesizeFullCodeplug_ok:
  assumes "base < length h" "MEM_SIZE \<le> length (deref h base)"
  shows "synthesizeFullCodeplug base h = (h @ [synth_image (deref h base)], Inr (length h))"
proof -
  let ?b = "deref h base"
  have len: "992 \<le> length ?b" using assms by (simp add: MEM_SIZE_def)
  have "synth_loop (length h) (synth_flags ?b) (synth_trailer ?b) 0 (h @ [?b]) =
      ((h @ [?b])[length h := take 16 ?b @
          channel_records (synth_flags ?b) (synth_trailer ?b) 16 @ drop 272 ?b], Inr ())"
    using len by (intro synth_loop_ok) (simp_all add: channel_records_def)
  then show ?thesis
    using assms
    unfolding synthesizeFullCodeplug_def scenario_consts Let_def synth_flags_def synth_trailer_def
      synth_image_def
    by (simp add: bind_def alloc_def seq_def ret_def split del: if_split cong: if_cong)
qed

lemma synthesizeFullCodeplug_short:
  assumes "length (deref h base) < MEM_SIZE"
  shows "synthesizeFullCodeplug base h =
     (h, Inl (Error (''Unexpected codeplug length: '' @ toString10 (length (deref h base)))))"
  using assms by (simp add: synthesizeFullCodeplug_def throw_def)

subsection \<open>The parts of the synthesized image\<close>

lemma length_synth_image [simp]: "992 \<le> length b \<Longrightarrow> length (synth_image b) = length b"
  by (simp add: synth_image_def)

lemma take16_synth_image [simp]: "992 \<le> length b \<Longrightarrow> take 16 (synth_image b) = take 16 b"
  by (simp add: synth_image_def)

lemma drop272_synth_image [simp]: "992 \<le> length b \<Longrightarrow> drop 272 (synth_image b) = drop 272 b"
  by (simp add: synth_image_def)

lemma channel_records_split:
  "i < n \<Longrightarrow> \<exists>rest. channel_records fl tr n =
      channel_records fl tr i @ channel_record fl tr i @ rest"
proof (induction n)
  case 0
  then show ?case by simp
next
  case (Suc n)
  show ?case
  proof (cases "i = n")
    case True
    then show ?thesis by (simp add: channel_records_Suc)
  next
    case False
    with Suc.prems have "i < n" by simp
    from Suc.IH [OF this] obtain rest where
      "channel_records fl tr n = channel_records fl tr i @ channel_record fl tr i @ rest" ..
    then show ?thesis by (simp add: channel_records_Suc)
  qed
qed

lemma synth_image_channel:
  assumes "992 \<le> length b" "i < 16"
  shows "take 16 (drop (16 + 16 * i) (synth_image b)) =
         channel_record (synth_flags b) (synth_trailer b) i"
proof -
  from channel_records_split [OF assms(2)] obtain rest where
    split: "channel_records (synth_flags b) (synth_trailer b) 16 =
       channel_records (synth_flags b) (synth_trailer b) i @
       channel_record (synth_flags b) (synth_trailer b) i @ rest" ..
  show ?thesis
    using assms unfolding synth_image_def split by simp
qed

lemma synth_image_outside:
  assumes "992 \<le> length b" "j < length b" "j < 16 \<or> 272 \<le> j"
  shows "synth_image b ! j = b ! j"
proof (cases "j < 16")
  case True
  then have "synth_image b ! j = take 16 (synth_image b) ! j" by simp
  also have "\<dots> = take 16 b ! j" using assms by simp
  finally show ?thesis using True by simp
next
  case False
  with assms have j: "272 \<le> j" by simp
  then obtain k where k: "j = 272 + k" using le_Suc_ex by blast
  have "synth_image b ! j = drop 272 (synth_image b) ! k"
    using assms k by (simp del: drop272_synth_image)
  also have "\<dots> = drop 272 b ! k" using assms by simp
  finally show ?thesis using assms k by simp
qed

lemma channel0_record:
  "channel_record fl tr 0 = [0x00, 0x00, 0x20, 0x46, 0x00, 0x00, 0x20, 0x46, 0xff, 0xff, 0xff, 0xff, fl] @ tr"
  by (simp add: channel_record_def Let_def BASE_FREQUENCY_HZ_def encode_channel_values(1))

lemma template_of_synth_image:
  assumes "992 \<le> length b"
  shows "slice_js (synth_image b) 16 32 = channel_record (synth_flags b) (synth_trailer b) 0"
  using synth_image_channel [OF assms, of 0] by (simp add: slice_js_def)

lemma synth_flags_idem: "992 \<le> length b \<Longrightarrow> synth_flags (synth_image b) = synth_flags b"
  by (subst synth_flags_def)
    (simp add: template_of_synth_image channel0_record isEmptyChannel_def at_def stored_def)

lemma synth_trailer_idem:
  assumes "992 \<le> length b"
  shows "synth_trailer (synth_image b) = synth_trailer b"
proof -
  let ?r = "channel_record (synth_flags b) (synth_trailer b) 0"
  have len: "length (synth_trailer b) = 3" using assms by simp
  have "synth_trailer (synth_image b) =
        (if isEmptyChannel ?r then [0, 0, 0] else slice_js ?r 13 16)"
    by (simp add: synth_trailer_def [of "synth_image b"] template_of_synth_image [OF assms])
  also have "\<dots> = synth_trailer b"
    using len by (simp add: channel0_record isEmptyChannel_def at_def slice_js_def)
  finally show ?thesis .
qed

lemma synth_image_idem: "992 \<le> length b \<Longrightarrow> synth_image (synth_image b) = synth_image b"
  by (subst synth_image_def) (simp add: synth_flags_idem synth_trailer_idem, simp add: synth_image_def)

lemma synth_image_fields:
  assumes "992 \<le> length b" "i < 16"
  shows "slice_js (synth_image b) (16 + i * 16 + 0) (16 + i * 16 + 0 + 4) =
           encodeLbcdFrequency (BASE_FREQUENCY_HZ + i * CHANNEL_STEP_HZ)"
    and "slice_js (synth_image b) (16 + i * 16 + 4) (16 + i * 16 + 4 + 4) =
           encodeLbcdFrequency (BASE_FREQUENCY_HZ + i * CHANNEL_STEP_HZ)"
proof -
  let ?f = "encodeLbcdFrequency (BASE_FREQUENCY_HZ + i * CHANNEL_STEP_HZ)"
  let ?r = "channel_record (synth_flags b) (synth_trailer b) i"
  have r: "take 16 (drop (16 + 16 * i) (synth_image b)) = ?r"
    using assms by (rule synth_image_channel)
  have "slice_js (synth_image b) (16 + i * 16 + 0) (16 + i * 16 + 0 + 4) =
        take 4 (take 16 (drop (16 + 16 * i) (synth_image b)))"
    by (simp add: slice_js_def mult.commute)
  also have "\<dots> = ?f" unfolding r by (simp add: channel_record_def Let_def)
  finally show "slice_js (synth_image b) (16 + i * 16 + 0) (16 + i * 16 + 0 + 4) = ?f" .
  have "slice_js (synth_image b) (16 + i * 16 + 4) (16 + i * 16 + 4 + 4) =
        take 4 (drop 4 (take 16 (drop (16 + 16 * i) (synth_image b))))"
    by (simp add: slice_js_def mult.commute drop_take add.commute)
  also have "\<dots> = ?f" unfolding r by (simp add: channel_record_def Let_def)
  finally show "slice_js (synth_image b) (16 + i * 16 + 4) (16 + i * 16 + 4 + 4) = ?f" .
qed

subsection \<open>Claims about the scenario layer\<close>

text \<open>
  C7. The channel-frequency encoder maps 462,000,000 Hz to the bytes
  \<open>[0x00, 0x00, 0x20, 0x46]\<close>, which are the decimal digits of 46,200,000 packed two to a
  byte with the least significant pair first. For every array \<open>base\<close> of at least
  \<open>MEM_SIZE\<close> bytes and every channel \<open>i\<close> below 16, \<^verbatim>\<open>synthesizeFullCodeplug\<close> returns
  an image whose receive-frequency field and transmit-frequency field of channel \<open>i\<close>
  both hold the encoding of \<open>462,000,000 + i * 12,500\<close> Hz, which is the packed-decimal
  field of the tenth of that frequency.
\<close>

theorem C7_frequency_encoding:
  "encodeLbcdFrequency 462000000 = [0x00, 0x00, 0x20, 0x46] \<and>
   lbcd_spec 46200000 = [0x00, 0x00, 0x20, 0x46] \<and>
   (\<forall>h base i. base < length h \<and> MEM_SIZE \<le> length (deref h base) \<and> i < CHANNEL_COUNT \<longrightarrow>
      (\<exists>h' img. synthesizeFullCodeplug base h = (h', Inr img) \<and>
         slice_js (deref h' img) (CHANNEL_BASE + i * CHANNEL_SIZE + RX_FREQ_OFFSET)
             (CHANNEL_BASE + i * CHANNEL_SIZE + RX_FREQ_OFFSET + 4) =
           encodeLbcdFrequency (BASE_FREQUENCY_HZ + i * CHANNEL_STEP_HZ) \<and>
         slice_js (deref h' img) (CHANNEL_BASE + i * CHANNEL_SIZE + TX_FREQ_OFFSET)
             (CHANNEL_BASE + i * CHANNEL_SIZE + TX_FREQ_OFFSET + 4) =
           encodeLbcdFrequency (BASE_FREQUENCY_HZ + i * CHANNEL_STEP_HZ) \<and>
         encodeLbcdFrequency (BASE_FREQUENCY_HZ + i * CHANNEL_STEP_HZ) =
           lbcd_spec ((BASE_FREQUENCY_HZ + i * CHANNEL_STEP_HZ) div 10)))"
proof (intro conjI allI impI)
  show "encodeLbcdFrequency 462000000 = [0x00, 0x00, 0x20, 0x46]"
    by (rule encode_channel_values(1))
  show "lbcd_spec 46200000 = [0x00, 0x00, 0x20, 0x46]"
    by (rule lbcd_spec_channel_values(1))
next
  fix h :: heap and base i :: nat
  assume a: "base < length h \<and> MEM_SIZE \<le> length (deref h base) \<and> i < CHANNEL_COUNT"
  then have len: "992 \<le> length (deref h base)" and i: "i < 16"
    by (simp_all add: MEM_SIZE_def CHANNEL_COUNT_def)
  have run: "synthesizeFullCodeplug base h =
      (h @ [synth_image (deref h base)], Inr (length h))"
    using a by (simp add: synthesizeFullCodeplug_ok)
  have img: "deref (h @ [synth_image (deref h base)]) (length h) = synth_image (deref h base)"
    by (simp add: deref_def)
  show "\<exists>h' img. synthesizeFullCodeplug base h = (h', Inr img) \<and>
         slice_js (deref h' img) (CHANNEL_BASE + i * CHANNEL_SIZE + RX_FREQ_OFFSET)
             (CHANNEL_BASE + i * CHANNEL_SIZE + RX_FREQ_OFFSET + 4) =
           encodeLbcdFrequency (BASE_FREQUENCY_HZ + i * CHANNEL_STEP_HZ) \<and>
         slice_js (deref h' img) (CHANNEL_BASE + i * CHANNEL_SIZE + TX_FREQ_OFFSET)
             (CHANNEL_BASE + i * CHANNEL_SIZE + TX_FREQ_OFFSET + 4) =
           encodeLbcdFrequency (BASE_FREQUENCY_HZ + i * CHANNEL_STEP_HZ) \<and>
         encodeLbcdFrequency (BASE_FREQUENCY_HZ + i * CHANNEL_STEP_HZ) =
           lbcd_spec ((BASE_FREQUENCY_HZ + i * CHANNEL_STEP_HZ) div 10)"
    unfolding run CHANNEL_BASE_def CHANNEL_SIZE_def RX_FREQ_OFFSET_def TX_FREQ_OFFSET_def
    using synth_image_fields [OF len i] encode_channel_is_lbcd [OF i]
    by (intro exI conjI) (rule refl, simp_all only: img)
qed

theorem C7_frequency_encoding_witness:
  "(0::nat) < length [replicate 992 (0::byte)] \<and>
   MEM_SIZE \<le> length (deref [replicate 992 (0::byte)] 0) \<and> (3::nat) < CHANNEL_COUNT \<and>
   (\<exists>h' img. synthesizeFullCodeplug 0 [replicate 992 (0::byte)] = (h', Inr img) \<and>
      slice_js (deref h' img) (CHANNEL_BASE + 3 * CHANNEL_SIZE + RX_FREQ_OFFSET)
          (CHANNEL_BASE + 3 * CHANNEL_SIZE + RX_FREQ_OFFSET + 4) = [0x50, 0x37, 0x20, 0x46] \<and>
      slice_js (deref h' img) (CHANNEL_BASE + 3 * CHANNEL_SIZE + TX_FREQ_OFFSET)
          (CHANNEL_BASE + 3 * CHANNEL_SIZE + TX_FREQ_OFFSET + 4) = [0x50, 0x37, 0x20, 0x46])"
proof -
  have hyp: "(0::nat) < length [replicate 992 (0::byte)] \<and>
      MEM_SIZE \<le> length (deref [replicate 992 (0::byte)] 0) \<and> (3::nat) < CHANNEL_COUNT"
    by (simp add: deref_def MEM_SIZE_def CHANNEL_COUNT_def)
  have val: "encodeLbcdFrequency (BASE_FREQUENCY_HZ + 3 * CHANNEL_STEP_HZ) = [0x50, 0x37, 0x20, 0x46]"
    by (simp add: BASE_FREQUENCY_HZ_def CHANNEL_STEP_HZ_def encode_channel_values)
  from C7_frequency_encoding have
    "\<forall>h base i. base < length h \<and> MEM_SIZE \<le> length (deref h base) \<and> i < CHANNEL_COUNT \<longrightarrow>
      (\<exists>h' img. synthesizeFullCodeplug base h = (h', Inr img) \<and>
         slice_js (deref h' img) (CHANNEL_BASE + i * CHANNEL_SIZE + RX_FREQ_OFFSET)
             (CHANNEL_BASE + i * CHANNEL_SIZE + RX_FREQ_OFFSET + 4) =
           encodeLbcdFrequency (BASE_FREQUENCY_HZ + i * CHANNEL_STEP_HZ) \<and>
         slice_js (deref h' img) (CHANNEL_BASE + i * CHANNEL_SIZE + TX_FREQ_OFFSET)
             (CHANNEL_BASE + i * CHANNEL_SIZE + TX_FREQ_OFFSET + 4) =
           encodeLbcdFrequency (BASE_FREQUENCY_HZ + i * CHANNEL_STEP_HZ) \<and>
         encodeLbcdFrequency (BASE_FREQUENCY_HZ + i * CHANNEL_STEP_HZ) =
           lbcd_spec ((BASE_FREQUENCY_HZ + i * CHANNEL_STEP_HZ) div 10))"
    by blast
  from this [rule_format, OF hyp] hyp show ?thesis
    unfolding val by blast
qed

text \<open>
  C8. \<^verbatim>\<open>synthesizeFullCodeplug\<close> is deterministic and idempotent. For every array
  \<open>base\<close> of at least \<open>MEM_SIZE\<close> bytes: a first call returns an image \<open>r1\<close>; a second
  call on the same \<open>base\<close> returns an image \<open>r2\<close> with the same bytes; and a call on
  \<open>r1\<close> returns an image \<open>r3\<close> with the same bytes as \<open>r1\<close>.
\<close>

theorem C8_synthesis_idempotent:
  assumes "base < length h" and "MEM_SIZE \<le> length (deref h base)"
  shows "\<exists>h1 r1 h2 r2 h3 r3.
           synthesizeFullCodeplug base h = (h1, Inr r1) \<and>
           synthesizeFullCodeplug base h1 = (h2, Inr r2) \<and>
           synthesizeFullCodeplug r1 h2 = (h3, Inr r3) \<and>
           deref h2 r2 = deref h1 r1 \<and>
           deref h3 r3 = deref h1 r1 \<and> deref h3 r1 = deref h1 r1"
proof -
  let ?b = "deref h base"
  let ?s = "synth_image ?b"
  let ?h1 = "h @ [?s]" and ?h2 = "h @ [?s] @ [?s]" and ?h3 = "h @ [?s] @ [?s] @ [?s]"
  have len: "992 \<le> length ?b" using assms by (simp add: MEM_SIZE_def)
  have b1: "deref ?h1 base = ?b" using assms by (simp add: deref_def nth_append)
  have r1: "deref ?h2 (length h) = ?s" by (simp add: deref_def nth_append)
  have 1: "synthesizeFullCodeplug base h = (?h1, Inr (length h))"
    using assms by (rule synthesizeFullCodeplug_ok)
  have 2: "synthesizeFullCodeplug base ?h1 = (?h2, Inr (length ?h1))"
    using synthesizeFullCodeplug_ok [of base ?h1] assms b1 by simp
  have 3: "synthesizeFullCodeplug (length h) ?h2 = (?h3, Inr (length ?h2))"
    using synthesizeFullCodeplug_ok [of "length h" ?h2] len r1
    by (simp add: MEM_SIZE_def synth_image_idem)
  have "deref ?h2 (length ?h1) = deref ?h1 (length h)"
    and "deref ?h3 (length ?h2) = deref ?h1 (length h)"
    and "deref ?h3 (length h) = deref ?h1 (length h)"
    by (simp_all add: deref_def nth_append)
  with 1 2 3 show ?thesis by blast
qed

theorem C8_synthesis_idempotent_witness:
  "(0::nat) < length [replicate 992 (0xff::byte)] \<and>
   MEM_SIZE \<le> length (deref [replicate 992 (0xff::byte)] 0) \<and>
   (\<exists>h1 r1 h2 r2 h3 r3.
      synthesizeFullCodeplug 0 [replicate 992 (0xff::byte)] = (h1, Inr r1) \<and>
      synthesizeFullCodeplug 0 h1 = (h2, Inr r2) \<and>
      synthesizeFullCodeplug r1 h2 = (h3, Inr r3) \<and>
      deref h2 r2 = deref h1 r1 \<and>
      deref h3 r3 = deref h1 r1 \<and> deref h3 r1 = deref h1 r1)"
proof -
  have 1: "(0::nat) < length [replicate 992 (0xff::byte)]" by simp
  have 2: "MEM_SIZE \<le> length (deref [replicate 992 (0xff::byte)] 0)"
    by (simp add: deref_def MEM_SIZE_def)
  from C8_synthesis_idempotent [OF 1 2] 1 2 show ?thesis by blast
qed

text \<open>
  C10. \<^verbatim>\<open>synthesizeFullCodeplug\<close> does not change any array that exists when it is
  called, its argument among them. If the argument is shorter than \<open>MEM_SIZE\<close> it throws
  and the store is as before. Otherwise it returns a reference to a new array, of the
  length of the base image, in which every byte at an offset outside
  \<open>[0x0010, 0x0110)\<close>, the 16 channel records, is the byte of the base image there.
\<close>

theorem C10_synthesis_frame:
  assumes "base < length h"
  shows "\<exists>h' res. synthesizeFullCodeplug base h = (h', res) \<and>
           (\<forall>r < length h. deref h' r = deref h r) \<and>
           (case res of
              Inl e \<Rightarrow> h' = h \<and> length (deref h base) < MEM_SIZE
            | Inr img \<Rightarrow>
                MEM_SIZE \<le> length (deref h base) \<and>
                img = length h \<and> length h' = Suc (length h) \<and>
                length (deref h' img) = length (deref h base) \<and>
                (\<forall>j < length (deref h base).
                   j < CHANNEL_BASE \<or> CHANNEL_BASE + CHANNEL_COUNT * CHANNEL_SIZE \<le> j \<longrightarrow>
                   deref h' img ! j = deref h base ! j))"
proof (cases "length (deref h base) < MEM_SIZE")
  case True
  then show ?thesis by (simp add: synthesizeFullCodeplug_short)
next
  case False
  then have len: "992 \<le> length (deref h base)" and mem: "MEM_SIZE \<le> length (deref h base)"
    by (simp_all add: MEM_SIZE_def)
  have run: "synthesizeFullCodeplug base h =
      (h @ [synth_image (deref h base)], Inr (length h))"
    using assms mem by (rule synthesizeFullCodeplug_ok)
  have old: "\<forall>r < length h. deref (h @ [synth_image (deref h base)]) r = deref h r"
    by (simp add: deref_def nth_append)
  have new: "deref (h @ [synth_image (deref h base)]) (length h) = synth_image (deref h base)"
    by (simp add: deref_def)
  have outside: "\<forall>j < length (deref h base).
      j < CHANNEL_BASE \<or> CHANNEL_BASE + CHANNEL_COUNT * CHANNEL_SIZE \<le> j \<longrightarrow>
      synth_image (deref h base) ! j = deref h base ! j"
    using len by (simp add: scenario_consts synth_image_outside)
  show ?thesis
    unfolding run using old new outside mem len by simp
qed

theorem C10_synthesis_frame_witness:
  "(0::nat) < length [replicate 992 (0x11::byte)] \<and>
   (\<exists>h' res. synthesizeFullCodeplug 0 [replicate 992 (0x11::byte)] = (h', res) \<and>
      (\<forall>r < length [replicate 992 (0x11::byte)]. deref h' r = deref [replicate 992 (0x11::byte)] r) \<and>
      (case res of
         Inl e \<Rightarrow> h' = [replicate 992 (0x11::byte)] \<and>
                   length (deref [replicate 992 (0x11::byte)] 0) < MEM_SIZE
       | Inr img \<Rightarrow>
           MEM_SIZE \<le> length (deref [replicate 992 (0x11::byte)] 0) \<and>
           img = length [replicate 992 (0x11::byte)] \<and>
           length h' = Suc (length [replicate 992 (0x11::byte)]) \<and>
           length (deref h' img) = length (deref [replicate 992 (0x11::byte)] 0) \<and>
           (\<forall>j < length (deref [replicate 992 (0x11::byte)] 0).
              j < CHANNEL_BASE \<or> CHANNEL_BASE + CHANNEL_COUNT * CHANNEL_SIZE \<le> j \<longrightarrow>
              deref h' img ! j = deref [replicate 992 (0x11::byte)] 0 ! j)))"
proof -
  have 1: "(0::nat) < length [replicate 992 (0x11::byte)]" by simp
  from C10_synthesis_frame [OF 1] 1 show ?thesis by blast
qed

section \<open>Properties of the drivers\<close>

lemmas act_defs = ret_def throw_def bind_def seq_def try_catch_def swallow_def
lemmas pact_defs = lift_def pret_def pthrow_def pbind_def pseq_def ptry_catch_def
lemmas driver_defs = on_backend_def do_log_def delay_def set_connected_def ensureConnected_def
  Date_now_def

lemma seq_Inr: "m s = (s', Inr u) \<Longrightarrow> seq m k s = k s'"
  by (simp add: seq_def bind_def)

lemma seq_Inl: "m s = (s', Inl e) \<Longrightarrow> seq m k s = (s', Inl e)"
  by (simp add: seq_def bind_def)

lemma bind_Inr: "m s = (s', Inr x) \<Longrightarrow> bind m f s = f x s'"
  by (simp add: bind_def)

lemma bind_Inl: "m s = (s', Inl e) \<Longrightarrow> bind m f s = (s', Inl e)"
  by (simp add: bind_def)

lemma pseq_Inr: "m s = Some (s', Inr u) \<Longrightarrow> pseq m k s = k s'"
  by (simp add: pseq_def pbind_def)

lemma pseq_Inl: "m s = Some (s', Inl e) \<Longrightarrow> pseq m k s = Some (s', Inl e)"
  by (simp add: pseq_def pbind_def)

lemma pbind_Inr: "m s = Some (s', Inr x) \<Longrightarrow> pbind m f s = f x s'"
  by (simp add: pbind_def)

lemma pbind_Inl: "m s = Some (s', Inl e) \<Longrightarrow> pbind m f s = Some (s', Inl e)"
  by (simp add: pbind_def)

subsection \<open>An image that is too short\<close>

lemma BF888_writeCodeplug_short:
  assumes "connected d" "length data < BF888_MEM_SIZE"
  shows "BF888_writeCodeplug ev data d =
     Some (d, Inl (Error (''Codeplug is too small: '' @ toString10 (length data) @ '' bytes'')))"
  using assms by (simp add: BF888_writeCodeplug_def pact_defs act_defs ensureConnected_def)

lemma KT8900_writeCodeplug_short:
  assumes "connected d" "length data < UPLOAD_MEM_SIZE"
  shows "KT8900_writeCodeplug ev data d =
     (d, Inl (Error (''Codeplug is too small: '' @ toString10 (length data) @ '' bytes'')))"
  using assms by (simp add: KT8900_writeCodeplug_def act_defs ensureConnected_def)

text \<open>
  C2. For both models, \<^verbatim>\<open>writeCodeplug\<close> on a connected driver with an image shorter
  than the model's minimum (BF-888: \<open>0x03E0\<close> bytes, KT-8900: \<open>0x3100\<close> bytes) throws
  the error \<open>Codeplug is too small\<close>, and the state after the call, the driver's fields
  and the state of its transport, is the state before the call, whatever the transport
  is: no operation of the transport has run. On the recording transport the list of calls
  has not grown.
\<close>

theorem C2_short_image_no_io:
  "(connected d \<and> length data < BF888_MEM_SIZE \<longrightarrow>
      BF888_writeCodeplug ev data d =
        Some (d, Inl (Error (''Codeplug is too small: '' @ toString10 (length data) @ '' bytes'')))) \<and>
   (connected k \<and> length data < UPLOAD_MEM_SIZE \<longrightarrow>
      KT8900_writeCodeplug ev data k =
        (k, Inl (Error (''Codeplug is too small: '' @ toString10 (length data) @ '' bytes'')))) \<and>
   (connected a \<and> length data < BF888_MEM_SIZE \<longrightarrow>
      (\<exists>a' e. BF888_writeCodeplug (scripted_env oe) data a = Some (a', Inl e) \<and>
         calls (backend a') = calls (backend a))) \<and>
   (connected b \<and> length data < UPLOAD_MEM_SIZE \<longrightarrow>
      (\<exists>b' e. KT8900_writeCodeplug (scripted_env oe) data b = (b', Inl e) \<and>
         calls (backend b') = calls (backend b)))"
  by (simp add: BF888_writeCodeplug_short KT8900_writeCodeplug_short)

theorem C2_short_image_no_io_witness:
  "connected (bf888_on (script_start []) True) \<and> length (replicate 991 (0::byte)) < BF888_MEM_SIZE \<and>
   connected (kt8900_on (script_start []) True) \<and> length (replicate 991 (0::byte)) < UPLOAD_MEM_SIZE \<and>
   BF888_writeCodeplug (scripted_env None) (replicate 991 0) (bf888_on (script_start []) True) =
     Some (bf888_on (script_start []) True, Inl (Error ''Codeplug is too small: 991 bytes'')) \<and>
   KT8900_writeCodeplug (scripted_env None) (replicate 991 0) (kt8900_on (script_start []) True) =
     (kt8900_on (script_start []) True, Inl (Error ''Codeplug is too small: 991 bytes'')) \<and>
   calls (backend (bf888_on (script_start []) True)) = []"
proof -
  have c: "connected (bf888_on (script_start []) True)" "connected (kt8900_on (script_start []) True)"
    by (simp_all add: bf888_on_def kt8900_on_def)
  have l: "length (replicate 991 (0::byte)) < BF888_MEM_SIZE"
    "length (replicate 991 (0::byte)) < UPLOAD_MEM_SIZE"
    by (simp_all add: BF888_MEM_SIZE_def UPLOAD_MEM_SIZE_def)
  have s: "toString10 991 = ''991''"
    by (simp add: toString10_def toStringRadix.simps digit_char_def)
  have "calls (backend (bf888_on (script_start []) True)) = []"
    by (simp add: bf888_on_def script_start_def)
  with C2_short_image_no_io [of "bf888_on (script_start []) True" "replicate 991 0"
      "scripted_env None" "kt8900_on (script_start []) True"] c l s
  show ?thesis by simp
qed

subsection \<open>\<^verbatim>\<open>disconnect\<close>\<close>

text \<open>
  C9, as the specification states it, fails: \<^verbatim>\<open>disconnect\<close> on a driver that is not
  Connected returns at once. On the recording transport, \<^verbatim>\<open>disconnect\<close> on a new
  driver of either model makes no call; and after a \<^verbatim>\<open>connect\<close> of the earlier BF-888
  revision that fails on the byte \<open>0x15\<close> in place of the first ACK, which leaves the
  transport open, \<^verbatim>\<open>disconnect\<close> adds no call: \<^verbatim>\<open>close\<close> is never called.
\<close>

theorem C9_disconnect_counterexample:
  "KT8900_disconnect (scripted_env None) (kt8900_on (script_start []) False) =
     (kt8900_on \<lparr>replies = [], calls = [], time = 0\<rparr> False, Inr ()) \<and>
   BF888_disconnect (scripted_env None) (bf888_on (script_start []) False) =
     (bf888_on \<lparr>replies = [], calls = [], time = 0\<rparr> False, Inr ()) \<and>
   BF888_strict_connect (scripted_env None) (bf888_on (script_start [(0, Inr [0x15])]) False) =
     (bf888_on \<lparr>replies = [],
                 calls = [Open, Write [0x02, 0x50, 0x52, 0x4f, 0x47, 0x52, 0x41, 0x4d], Read 1 2000],
                 time = 0\<rparr> False,
      Inl (Error ''Unexpected ACK after PROGRAM: 0x15'')) \<and>
   BF888_strict_disconnect (scripted_env None)
       (bf888_on \<lparr>replies = [],
                   calls = [Open, Write [0x02, 0x50, 0x52, 0x4f, 0x47, 0x52, 0x41, 0x4d], Read 1 2000],
                   time = 0\<rparr> False) =
     (bf888_on \<lparr>replies = [],
                 calls = [Open, Write [0x02, 0x50, 0x52, 0x4f, 0x47, 0x52, 0x41, 0x4d], Read 1 2000],
                 time = 0\<rparr> False,
      Inr ())"
proof (intro conjI)
  show "KT8900_disconnect (scripted_env None) (kt8900_on (script_start []) False) =
     (kt8900_on \<lparr>replies = [], calls = [], time = 0\<rparr> False, Inr ())"
    by (simp add: KT8900_disconnect_def kt8900_on_def script_start_def ret_def)
  show "BF888_disconnect (scripted_env None) (bf888_on (script_start []) False) =
     (bf888_on \<lparr>replies = [], calls = [], time = 0\<rparr> False, Inr ())"
    by (simp add: BF888_disconnect_def bf888_on_def script_start_def ret_def)
  have hex: "toString16 21 = ''15''"
    by (simp add: toString16_def toStringRadix.simps digit_char_def)
  show "BF888_strict_connect (scripted_env None) (bf888_on (script_start [(0, Inr [0x15])]) False) =
     (bf888_on \<lparr>replies = [],
                 calls = [Open, Write [0x02, 0x50, 0x52, 0x4f, 0x47, 0x52, 0x41, 0x4d], Read 1 2000],
                 time = 0\<rparr> False,
      Inl (Error ''Unexpected ACK after PROGRAM: 0x15''))"
    by (simp add: BF888_strict_connect_def readByte_def readExactly_def act_defs driver_defs
        scripted_env_def script_read_def bf888_on_def script_start_def encodeCommand_def
        bytes_fn_def ACK_def hex)
  show "BF888_strict_disconnect (scripted_env None)
       (bf888_on \<lparr>replies = [],
                   calls = [Open, Write [0x02, 0x50, 0x52, 0x4f, 0x47, 0x52, 0x41, 0x4d], Read 1 2000],
                   time = 0\<rparr> False) =
     (bf888_on \<lparr>replies = [],
                 calls = [Open, Write [0x02, 0x50, 0x52, 0x4f, 0x47, 0x52, 0x41, 0x4d], Read 1 2000],
                 time = 0\<rparr> False,
      Inr ())"
    by (simp add: BF888_strict_disconnect_def bf888_on_def ret_def)
qed

text \<open>
  C9, amended. For both drivers, \<^verbatim>\<open>disconnect\<close> on a driver that is not Connected does
  nothing: it returns with the driver and its transport as they were, the transport not
  closed. On a Connected driver it closes the transport (the BF-888 first writes the exit
  command \<open>E\<close>) and the driver is Disconnected afterwards, provided the write and the
  close succeed.
\<close>

theorem C9_disconnect_amended:
  "(\<not> connected k \<longrightarrow> KT8900_disconnect ev k = (k, Inr ())) \<and>
   (\<not> connected d \<longrightarrow> BF888_disconnect ev d = (d, Inr ())) \<and>
   (\<not> connected d \<longrightarrow> BF888_strict_disconnect ev d = (d, Inr ())) \<and>
   (connected k \<and> tr_close ev (backend k) = (s1, Inr ()) \<longrightarrow>
      KT8900_disconnect ev k = (k\<lparr>backend := s1, connected := False\<rparr>, Inr ())) \<and>
   (connected d \<and> tr_write ev (encodeCommand ''E'') (backend d) = (s1, Inr ()) \<and>
      tr_close ev s1 = (s2, Inr ()) \<longrightarrow>
      BF888_disconnect ev d = (d\<lparr>backend := s2, connected := False\<rparr>, Inr ()) \<and>
      BF888_strict_disconnect ev d = (d\<lparr>backend := s2, connected := False\<rparr>, Inr ()))"
  by (simp add: KT8900_disconnect_def BF888_disconnect_def BF888_strict_disconnect_def act_defs
      driver_defs)

theorem C9_disconnect_amended_witness:
  "\<not> connected (kt8900_on (script_start []) False) \<and>
   \<not> connected (bf888_on (script_start []) False) \<and>
   KT8900_disconnect (scripted_env None) (kt8900_on (script_start []) False) =
     (kt8900_on (script_start []) False, Inr ()) \<and>
   BF888_disconnect (scripted_env None) (bf888_on (script_start []) False) =
     (bf888_on (script_start []) False, Inr ()) \<and>
   connected (kt8900_on (script_start []) True) \<and>
   connected (bf888_on (script_start []) True) \<and>
   KT8900_disconnect (scripted_env None) (kt8900_on (script_start []) True) =
     (kt8900_on \<lparr>replies = [], calls = [Close], time = 0\<rparr> False, Inr ()) \<and>
   BF888_disconnect (scripted_env None) (bf888_on (script_start []) True) =
     (bf888_on \<lparr>replies = [], calls = [Write [0x45], Close], time = 0\<rparr> False, Inr ())"
proof -
  let ?ev = "scripted_env None"
  let ?s1 = "\<lparr>replies = [], calls = [Write [0x45]], time = 0\<rparr>"
  let ?s2 = "\<lparr>replies = [], calls = [Write [0x45], Close], time = 0\<rparr>"
  let ?c1 = "\<lparr>replies = [], calls = [Close], time = 0\<rparr>"
  have n: "\<not> connected (kt8900_on (script_start []) False)"
    "\<not> connected (bf888_on (script_start []) False)"
    and c: "connected (kt8900_on (script_start []) True)"
    "connected (bf888_on (script_start []) True)"
    by (simp_all add: kt8900_on_def bf888_on_def)
  have k: "tr_close ?ev (backend (kt8900_on (script_start []) True)) = (?c1, Inr ())"
    by (simp add: scripted_env_def kt8900_on_def script_start_def)
  have w: "tr_write ?ev (encodeCommand ''E'') (backend (bf888_on (script_start []) True)) =
      (?s1, Inr ())"
    by (simp add: scripted_env_def bf888_on_def script_start_def encodeCommand_def)
  have cl: "tr_close ?ev ?s1 = (?s2, Inr ())"
    by (simp add: scripted_env_def)
  note amended = C9_disconnect_amended
  from amended [of "kt8900_on (script_start []) False" ?ev "bf888_on (script_start []) False"] n
  have 1: "KT8900_disconnect ?ev (kt8900_on (script_start []) False) =
      (kt8900_on (script_start []) False, Inr ())"
    and 2: "BF888_disconnect ?ev (bf888_on (script_start []) False) =
      (bf888_on (script_start []) False, Inr ())"
    by simp_all
  from amended [of "kt8900_on (script_start []) True" ?ev _ ?c1] c k
  have 3: "KT8900_disconnect ?ev (kt8900_on (script_start []) True) =
      (kt8900_on ?c1 False, Inr ())"
    by (simp add: kt8900_on_def)
  from amended [of _ ?ev "bf888_on (script_start []) True" ?s1 ?s2] c w cl
  have 4: "BF888_disconnect ?ev (bf888_on (script_start []) True) = (bf888_on ?s2 False, Inr ())"
    by (simp add: bf888_on_def)
  from n c 1 2 3 4 show ?thesis by simp
qed

subsection \<open>Waiting for an acknowledgement\<close>

lemma buffersEqual_loop_iff:
  "length a = length b \<Longrightarrow> i \<le> length a \<Longrightarrow>
   buffersEqual_loop a b i \<longleftrightarrow> drop i a = drop i b"
proof (induction a b i rule: buffersEqual_loop.induct)
  case (1 a b i)
  show ?case
  proof (cases "i < length a")
    case True
    with 1 have da: "drop i a = a ! i # drop (Suc i) a" and db: "drop i b = b ! i # drop (Suc i) b"
      by (simp_all add: Cons_nth_drop_Suc)
    show ?thesis
      using True 1 by (subst buffersEqual_loop.simps) (auto simp: at_def da db)
  next
    case False
    with 1 show ?thesis by (subst buffersEqual_loop.simps) simp
  qed
qed

lemma buffersEqual_iff [simp]: "buffersEqual a b \<longleftrightarrow> a = b"
  by (auto simp: buffersEqual_def buffersEqual_loop_iff)

lemma map_bytes_fn [simp]: "length bs = n \<Longrightarrow> map (bytes_fn bs) [0..<n] = bs"
  by (auto simp: bytes_fn_def intro: nth_equalityI)





lemma script_clock [simp]: "clock_now (scripted_env oe) s = time s"
  by (simp add: scripted_env_def)

text \<open>One turn of the loop of \<^verbatim>\<open>readUntilAck\<close>, on any transport.\<close>

lemma readUntilAck_loop_byte:
  "Date_now ev d < deadline \<Longrightarrow>
   on_backend (readExactly ev 1 (max 1 (deadline - Date_now ev d))) d = (d', Inr [b]) \<Longrightarrow>
   readUntilAck_loop ev ctx deadline seen d =
     (if b = ACK then Some (d', Inr ()) else readUntilAck_loop ev ctx deadline (seen @ [b]) d')"
  by (subst readUntilAck_loop.simps) simp











subsection \<open>A \<^verbatim>\<open>connect\<close> that fails\<close>




















lemma keeps_pseq: "keeps m \<Longrightarrow> keeps k \<Longrightarrow> keeps (pseq m k)"
  unfolding keeps_def pseq_def pbind_def
  by (auto split: option.splits sum.splits prod.splits)

















subsection \<open>Identification of the KT-8900, with retry\<close>

lemma retry_pause_eq:
  "fst (seq (do_log (''KT8900: ident failed (attempt '' @ toString10 attempt @ ''), retrying...''))
            (delay ev 500) d) = retry_pause ev attempt d"
  by (simp add: retry_pause_def act_defs do_log_def delay_def)

lemma identifyWithRetry_loop_last:
  "identifyWithRetry_loop ev upload 3 d = identifyOnce ev upload d"
  by (subst identifyWithRetry_loop.simps)
    (auto simp: attempts_def split: prod.splits sum.splits)

lemma identifyWithRetry_loop_first:
  "identifyWithRetry_loop ev upload 1 d =
     (case identifyOnce ev upload d of
        (d', Inr u) \<Rightarrow> (d', Inr ())
      | (d', Inl err) \<Rightarrow>
          (if \<not> isRetryableIdentError err then (d', Inl err)
           else identifyWithRetry_loop ev upload 2 (retry_pause ev 1 d')))"
  by (subst identifyWithRetry_loop.simps, unfold retry_pause_eq)
    (auto simp: attempts_def numeral_2_eq_2 numeral_3_eq_3 split: prod.splits sum.splits)

lemma identifyWithRetry_loop_second:
  "identifyWithRetry_loop ev upload 2 d =
     (case identifyOnce ev upload d of
        (d', Inr u) \<Rightarrow> (d', Inr ())
      | (d', Inl err) \<Rightarrow>
          (if \<not> isRetryableIdentError err then (d', Inl err)
           else identifyWithRetry_loop ev upload 3 (retry_pause ev 2 d')))"
  by (subst identifyWithRetry_loop.simps, unfold retry_pause_eq)
    (auto simp: attempts_def numeral_2_eq_2 numeral_3_eq_3 split: prod.splits sum.splits)

lemma identifyWithRetry_unrolled:
  "identifyWithRetry ev upload d =
     (case identifyOnce ev upload d of
        (d1, Inr u) \<Rightarrow> (d1, Inr ())
      | (d1, Inl e1) \<Rightarrow>
          (if \<not> isRetryableIdentError e1 then (d1, Inl e1)
           else
             (case identifyOnce ev upload (retry_pause ev 1 d1) of
                (d2, Inr u) \<Rightarrow> (d2, Inr ())
              | (d2, Inl e2) \<Rightarrow>
                  (if \<not> isRetryableIdentError e2 then (d2, Inl e2)
                   else identifyOnce ev upload (retry_pause ev 2 d2)))))"
  unfolding identifyWithRetry_def identifyWithRetry_loop_first identifyWithRetry_loop_second
    identifyWithRetry_loop_last
  by (rule refl)




text \<open>One attempt on the scripted transport.\<close>

lemma ident_known: "list_ex (\<lambda>id. containsSubarray kt8900_ident id) FILE_IDS"
  by (simp add: FILE_IDS_def kt8900_ident_def asciiEncode_def containsSubarray_def
      containsSubarray_loop.simps containsSubarray_match.simps at_def ACK_def)

lemma length_kt8900_ident [simp]: "length kt8900_ident = 50"
  by (simp add: kt8900_ident_def asciiEncode_def)

lemma kt8900_ident_0 [simp]: "kt8900_ident ! 0 = ACK"
  by (simp add: kt8900_ident_def)



lemma extra_frame: "buildFrame (CHR ''S'') EXTRA_ID_ADDR EXTRA_ID_LEN None = [0x06, 0x53, 0x3d, 0xf0, 0x10]"
  by (simp add: buildFrame_def EXTRA_ID_ADDR_def EXTRA_ID_LEN_def ACK_def)



subsection \<open>The simulated radios\<close>

lemma take_bytes_fn: "n \<le> length bs \<Longrightarrow> map (bytes_fn bs) [0..<n] = take n bs"
  by (rule nth_equalityI) (simp_all add: bytes_fn_def)

lemma radio_write:
  "tr_write (radio_env reply) frame s =
     (s\<lparr>rx := rx s @ reply (mem s) frame, sent := sent s @ [frame]\<rparr>, Inr ())"
  by (simp add: radio_env_def)

lemma radio_readExactly:
  "n \<le> length (rx s) \<Longrightarrow>
   readExactly (radio_env reply) n t s = (s\<lparr>rx := drop n (rx s)\<rparr>, Inr (take n (rx s)))"
  by (simp add: readExactly_def radio_env_def radio_read_def take_bytes_fn)

lemma radio_readExactly_timeout:
  "length (rx s) < n \<Longrightarrow> readExactly (radio_env reply) n t s = (s, Inl (timeout_error n))"
  by (simp add: readExactly_def radio_env_def radio_read_def)

lemma radio_delay [simp]: "timer_delay (radio_env reply) ms s = s"
  by (simp add: radio_env_def)

lemma radio_clock [simp]: "clock_now (radio_env reply) s = 0"
  by (simp add: radio_env_def)

text \<open>One exchange: a frame written to a quiet radio, and the whole answer read.\<close>

lemma radio_exchange:
  assumes "rx (backend d) = []" "length (reply (mem (backend d)) frame) = n"
  shows "seq (on_backend (tr_write (radio_env reply) frame))
           (bind (on_backend (readExactly (radio_env reply) n t)) k) d =
         k (reply (mem (backend d)) frame) (after_frames [frame] d)"
  using assms
  by (simp add: act_defs on_backend_def radio_write radio_readExactly after_frames_def heard_def)

lemma after_frames_simps [simp]:
  "rx (backend (after_frames fs d)) = []"
  "mem (backend (after_frames fs d)) = mem (backend d)"
  "sent (backend (after_frames fs d)) = sent (backend d) @ fs"
  "dryRun (after_frames fs d) = dryRun d"
  "connected (after_frames fs d) = connected d"
  "log (after_frames fs d) = log d"
  "after_frames fs (after_frames gs d) = after_frames (gs @ fs) d"
  by (simp_all add: after_frames_def heard_def)

lemma after_frames_nil: "rx (backend d) = [] \<Longrightarrow> after_frames [] d = d"
  by (simp add: after_frames_def heard_def)


lemma byte_and: "(of_nat (n AND 0xff) :: byte) = of_nat n"
  by (simp add: word_of_nat_eq_iff take_bit_eq_mask mask_eq_exp_minus_1)

lemma or_split: "push_bit 8 (drop_bit 8 a) OR take_bit 8 a = (a::nat)"
  by (rule bit_eqI) (auto simp add: bit_or_iff bit_push_bit_iff bit_take_bit_iff bit_drop_bit_eq)

lemma addr_or:
  "a < 65536 \<Longrightarrow>
   push_bit 8 (unat (of_nat (drop_bit 8 a) :: byte)) OR unat (of_nat a :: byte) = a"
  using or_split [of a] by (simp add: unat_of_nat drop_bit_eq_div take_bit_eq_mod)

lemma addr_frame:
  "a < 65536 \<Longrightarrow> frame_addr (of_nat (drop_bit 8 a)) (of_nat a) = a"
  by (simp add: frame_addr_def unat_of_nat drop_bit_eq_div)


subsection \<open>The upload of the KT-8900\<close>

lemma kt_reply_magic: "kt8900_reply w m MAGIC = kt8900_ident"
  by (simp add: kt8900_reply_def)

lemma kt_reply_ack: "kt8900_reply w m [ACK] = [ACK]"
  by (simp add: kt8900_reply_def MAGIC_def)

lemma kt_reply_S:
  assumes "a < 65536" "n < 256"
  shows "kt8900_reply w m (buildFrame (CHR ''S'') a n None) =
     [ACK, of_char (CHR ''X''), of_nat (drop_bit 8 a AND 0xff), of_nat (a AND 0xff), of_nat n] @
     slice_js m a (a + n)"
  using assms
  by (simp add: kt8900_reply_def buildFrame_def MAGIC_def addr_frame byte_and unat_of_nat)

lemma isTimeoutError_timeout: "isTimeoutError (timeout_error n)"
  by (simp add: isTimeoutError_def timeout_error_def regex_words_ci_def fold_case_def)

lemma readOptionalAck_one:
  assumes "rx s = [b]"
  shows "readOptionalAck (radio_env reply) 2 500 s = (s\<lparr>rx := []\<rparr>, Inr [b])"
  using assms
  by (simp add: readOptionalAck_def readOptionalAck_loop.simps radio_readExactly
      radio_readExactly_timeout isTimeoutError_timeout)


lemma kt_reply_extra:
  "kt8900_reply w m [0x06, 0x53, 0x3d, 0xf0, 0x10] =
     [0x06, 0x58, 0x3d, 0xf0, 0x10] @ take 16 (drop 0x3df0 m)"
  using kt_reply_S [of EXTRA_ID_ADDR EXTRA_ID_LEN w m] unfolding extra_frame
  by (simp add: EXTRA_ID_ADDR_def EXTRA_ID_LEN_def slice_js_def ACK_def)

lemma identifyOnce_radio:
  assumes "rx (backend d) = []" "log d = no_log" "0x3e00 \<le> length (mem (backend d))"
  shows "identifyOnce (kt8900_radio w) upload d =
     (after_frames ([MAGIC, [0x06, 0x53, 0x3d, 0xf0, 0x10]] @ (if upload then [[ACK]] else [])) d,
      Inr ())"
  using assms ident_known
  by (simp add: identifyOnce_def act_defs do_log_def on_backend_def delay_def no_log_def
      IDENT_LENGTH_def EXTRA_ID_LEN_def kt8900_radio_def radio_write
      radio_readExactly kt_reply_magic kt_reply_ack [unfolded ACK_def] readOptionalAck_one
      extra_frame [unfolded EXTRA_ID_LEN_def] kt_reply_extra
      slice_js_def after_frames_def heard_def at_def ACK_def Let_def)


lemma byte_mod: "(of_nat (a mod 256) :: byte) = of_nat a"
  by (simp add: word_of_nat_eq_iff take_bit_eq_mod)

text \<open>The frame \<^verbatim>\<open>writeBlock\<close> sends, and what it makes of the byte it reads.\<close>

lemma KT8900_writeBlock_frame:
  assumes "length data = 16"
  shows "KT8900_writeBlock ev address data omitLeadingAck =
     seq (on_backend (tr_write ev
            ((if omitLeadingAck then [] else [0x06]) @
             [of_char (CHR ''X''), of_nat (address div 256), of_nat (address mod 256), 0x10] @
             data)))
       (bind (on_backend (readExactly ev 1 1000)) (\<lambda>ack.
          if ack ! 0 = 0x06 \<or> ack ! 0 = 0x05 then ret ()
          else throw (Error (''Bad ACK writing block 0x'' @ toString16 address @ '': 0x'' @
                        toString16 (unat (ack ! 0))))))"
proof -
  have frame: "buildFrame (CHR ''X'') address 16 (Some data) =
      [0x06, of_char (CHR ''X''), of_nat (address div 256), of_nat (address mod 256), 0x10] @ data"
    using assms by (simp add: buildFrame_def byte_and byte_mod drop_bit_eq_div ACK_def)
  have flip: "(if \<not> P \<and> \<not> Q then x else y) = (if P \<or> Q then y else x)" for P Q and x y :: 'z
    by simp
  show ?thesis
    using assms
    by (cases omitLeadingAck)
      (simp_all add: KT8900_writeBlock_def TX_BLOCK_SIZE_def frame slice_js_from_def Let_def
        ACK_def ACK_ALT_def flip)
qed


lemma kt_reply_X:
  assumes "length data = 16"
  shows "kt8900_reply w m ((if omit then [] else [0x06]) @ [of_char (CHR ''X''), hi, lo, 0x10] @ data)
     = [w]"
proof -
  let ?frame = "(if omit then [] else [0x06]) @ [of_char (CHR ''X''), hi, lo, 0x10] @ data"
  have "length ?frame \<noteq> length MAGIC" "length ?frame \<noteq> 1" "length ?frame \<noteq> 5"
    using assms by (simp_all add: MAGIC_def)
  then have "?frame \<noteq> MAGIC" "?frame \<noteq> [ACK]" "length ?frame \<noteq> 5"
    by (metis, metis length_Cons list.size(3) One_nat_def, simp)
  moreover have "is_x_frame ?frame \<or> (?frame \<noteq> [] \<and> hd ?frame = ACK \<and> is_x_frame (tl ?frame))"
    using assms by (simp add: ACK_def)
  ultimately show ?thesis
    unfolding kt8900_reply_def by (simp del: append.simps)
qed

lemma KT8900_writeBlock_radio:
  assumes "rx (backend d) = []" "length data = 16"
  shows "KT8900_writeBlock (kt8900_radio w) address data omit d =
     (after_frames [(if omit then [] else [0x06]) @
                    [of_char (CHR ''X''), of_nat (address div 256), of_nat (address mod 256), 0x10] @
                    data] d,
      if w = 0x06 \<or> w = 0x05 then Inr ()
      else Inl (Error (''Bad ACK writing block 0x'' @ toString16 address @ '': 0x'' @
                  toString16 (unat w))))"
proof -
  let ?frame = "(if omit then [] else [0x06]) @
     [of_char (CHR ''X''), of_nat (address div 256), of_nat (address mod 256), 0x10] @ data"
  let ?k = "\<lambda>ack. if ack ! 0 = 0x06 \<or> ack ! 0 = 0x05 then ret ()
     else throw (Error (''Bad ACK writing block 0x'' @ toString16 address @ '': 0x'' @
                   toString16 (unat (ack ! 0))))"
  have reply: "kt8900_reply w (mem (backend d)) ?frame = [w]"
    by (rule kt_reply_X [OF assms(2)])
  have "KT8900_writeBlock (kt8900_radio w) address data omit d =
      seq (on_backend (tr_write (radio_env (kt8900_reply w)) ?frame))
        (bind (on_backend (readExactly (radio_env (kt8900_reply w)) 1 1000)) ?k) d"
    by (simp only: KT8900_writeBlock_frame [OF assms(2)] kt8900_radio_def)
  also have "\<dots> = ?k (kt8900_reply w (mem (backend d)) ?frame) (after_frames [?frame] d)"
    by (rule radio_exchange) (simp_all only: assms(1) reply, simp)
  also have "\<dots> = ?k [w] (after_frames [?frame] d)"
    by (simp only: reply)
  also have "\<dots> = (after_frames [?frame] d,
      if w = 0x06 \<or> w = 0x05 then Inr ()
      else Inl (Error (''Bad ACK writing block 0x'' @ toString16 address @ '': 0x'' @
                  toString16 (unat w))))"
    by (simp add: act_defs del: append.simps)
  finally show ?thesis .
qed

lemma upload_block:
  assumes "16 * j + 16 \<le> length data"
  shows "length (slice_js data (16 * j) (16 * j + TX_BLOCK_SIZE)) = 16"
    and "(if 16 * j = 0 then [] else [0x06]) @
         [of_char (CHR ''X''), of_nat ((16 * j) div 256), of_nat ((16 * j) mod 256), 0x10] @
         slice_js data (16 * j) (16 * j + TX_BLOCK_SIZE) = upload_frame data j"
  using assms by (simp_all add: slice_js_def TX_BLOCK_SIZE_def upload_frame_def)

lemma KT8900_writeCodeplug_loop_radio:
  assumes "w = 0x06 \<or> w = 0x05" "0x3100 \<le> length data"
  shows "rx (backend d) = [] \<Longrightarrow> \<not> dryRun d \<Longrightarrow> j \<le> 784 \<Longrightarrow> n = 784 - j \<Longrightarrow>
     KT8900_writeCodeplug_loop (kt8900_radio w) data (16 * j) d =
       (after_frames (map (upload_frame data) [j..<784]) d, Inr ())"
proof (induction n arbitrary: j d)
  case 0
  then have "j = 784" by simp
  with 0 show ?case
    by (subst KT8900_writeCodeplug_loop.simps) (simp add: UPLOAD_MEM_SIZE_def after_frames_nil)
next
  case (Suc n)
  then have j: "j < 784" by simp
  with assms(2) have fits: "16 * j + 16 \<le> length data" by simp
  note block = upload_block [OF fits]
  have step: "KT8900_writeBlock (kt8900_radio w) (16 * j)
        (slice_js data (16 * j) (16 * j + TX_BLOCK_SIZE)) (16 * j = 0) d =
      (after_frames [upload_frame data j] d, Inr ())"
    using assms(1) by (simp only: KT8900_writeBlock_radio [OF Suc.prems(1) block(1)] block(2) if_True)
  have rest: "KT8900_writeCodeplug_loop (kt8900_radio w) data (16 * Suc j)
        (after_frames [upload_frame data j] d) =
      (after_frames (map (upload_frame data) [Suc j..<784])
         (after_frames [upload_frame data j] d), Inr ())"
    using Suc.prems j by (intro Suc.IH) simp_all
  have cont: "16 * j + TX_BLOCK_SIZE = 16 * Suc j"
    by (simp add: TX_BLOCK_SIZE_def)
  have step': "KT8900_writeBlock (kt8900_radio w) (16 * j)
        (slice_js data (16 * j) (16 * Suc j)) (j = 0) d =
      (after_frames [upload_frame data j] d, Inr ())"
    using step by (simp add: cont del: mult_Suc_right)
  have "KT8900_writeCodeplug_loop (kt8900_radio w) data (16 * j) d =
      KT8900_writeCodeplug_loop (kt8900_radio w) data (16 * Suc j)
        (after_frames [upload_frame data j] d)"
    using j Suc.prems(2)
    by (subst KT8900_writeCodeplug_loop.simps)
       (simp add: UPLOAD_MEM_SIZE_def Let_def step' cont del: mult_Suc_right)
  then show ?case
    using j by (simp only: rest after_frames_simps) (simp add: upt_conv_Cons)
qed


lemma identifyWithRetry_radio:
  assumes "rx (backend d) = []" "log d = no_log" "0x3e00 \<le> length (mem (backend d))"
  shows "identifyWithRetry (kt8900_radio w) upload d =
     (after_frames ([MAGIC, [0x06, 0x53, 0x3d, 0xf0, 0x10]] @ (if upload then [[ACK]] else [])) d,
      Inr ())"
  by (simp only: identifyWithRetry_unrolled identifyOnce_radio [OF assms] prod.case sum.case)

lemma toString16_0: "toString16 0 = ''0''"
  by (simp add: toString16_def toStringRadix.simps digit_char_def)

lemma KT8900_writeCodeplug_radio:
  assumes "connected d" "rx (backend d) = []" "log d = no_log" "\<not> dryRun d"
    and "0x3e00 \<le> length (mem (backend d))" "0x3100 \<le> length data"
  shows "KT8900_writeCodeplug (kt8900_radio w) data d =
     (if w = 0x06 \<or> w = 0x05
      then (after_frames ([MAGIC, [0x06, 0x53, 0x3d, 0xf0, 0x10], [0x06]] @
                          map (upload_frame data) [0..<784]) d, Inr ())
      else (after_frames [MAGIC, [0x06, 0x53, 0x3d, 0xf0, 0x10], [0x06], upload_frame data 0] d,
            Inl (Error (''Bad ACK writing block 0x0: 0x'' @ toString16 (unat w)))))"
proof -
  let ?d1 = "after_frames [MAGIC, [0x06, 0x53, 0x3d, 0xf0, 0x10], [0x06]] d"
  have ident: "identifyWithRetry (kt8900_radio w) True d = (?d1, Inr ())"
    using identifyWithRetry_radio [OF assms(2,3,5), of w True] by (simp add: ACK_def)
  have start: "KT8900_writeCodeplug (kt8900_radio w) data d =
      KT8900_writeCodeplug_loop (kt8900_radio w) data 0 ?d1"
    using assms(1,6) ident
    by (simp add: KT8900_writeCodeplug_def ensureConnected_def UPLOAD_MEM_SIZE_def act_defs)
  have quiet: "rx (backend ?d1) = []" "\<not> dryRun ?d1"
    using assms(4) by simp_all
  show ?thesis
  proof (cases "w = 0x06 \<or> w = 0x05")
    case True
    have "KT8900_writeCodeplug_loop (kt8900_radio w) data (16 * 0) ?d1 =
        (after_frames (map (upload_frame data) [0..<784]) ?d1, Inr ())"
      by (rule KT8900_writeCodeplug_loop_radio [OF True assms(6) quiet]) simp_all
    with True show ?thesis
      by (simp only: start after_frames_simps mult_0_right if_True append.simps)
  next
    case False
    have fits: "16 * 0 + 16 \<le> length data"
      using assms(6) by simp
    note block = upload_block [OF fits]
    have "KT8900_writeBlock (kt8900_radio w) (16 * 0)
          (slice_js data (16 * 0) (16 * 0 + TX_BLOCK_SIZE)) (16 * 0 = (0::nat)) ?d1 =
        (after_frames [upload_frame data 0] ?d1,
         Inl (Error (''Bad ACK writing block 0x'' @ toString16 (16 * 0) @ '': 0x'' @
                toString16 (unat w))))"
      using False by (simp only: KT8900_writeBlock_radio [OF quiet(1) block(1)] block(2) if_False)
    then have "KT8900_writeCodeplug_loop (kt8900_radio w) data 0 ?d1 =
        (after_frames [upload_frame data 0] ?d1,
         Inl (Error (''Bad ACK writing block 0x0: 0x'' @ toString16 (unat w))))"
      using quiet(2)
      by (subst KT8900_writeCodeplug_loop.simps)
         (simp add: UPLOAD_MEM_SIZE_def Let_def toString16_0)
    with False show ?thesis
      by (simp only: start after_frames_simps if_False append.simps)
  qed
qed


lemma after_frames_start:
  "after_frames fs (kt8900_on (radio_start m) c) = kt8900_on \<lparr>rx = [], mem = m, sent = fs\<rparr> c"
  by (simp add: after_frames_def heard_def kt8900_on_def radio_start_def)

lemma upload_frame_first: "upload_frame data 0 = [0x58, 0x00, 0x00, 0x10] @ take 16 data"
  by (simp add: upload_frame_def)

lemma upload_frame_later:
  "0 < k \<Longrightarrow> upload_frame data k =
     [0x06, 0x58, of_nat ((16 * k) div 256), of_nat ((16 * k) mod 256), 0x10] @
     take 16 (drop (16 * k) data)"
  by (simp add: upload_frame_def)

text \<open>
  C6. \<^verbatim>\<open>writeBlock\<close> of the KT-8900, for a block of 16 bytes and on any transport, writes
  one frame, \<open>['X', addrHi, addrLo, 0x10]\<close> and the 16 bytes, after a leading \<open>0x06\<close>
  unless it is told to omit it, then reads one byte, and succeeds when that byte is
  \<open>0x06\<close> or \<open>0x05\<close> and throws \<open>Bad ACK writing block\<close> for any other byte.
  \<^verbatim>\<open>writeCodeplug\<close> against the simulated radio, for an image of at least \<open>0x3100\<close>
  bytes: when the radio acknowledges a block with \<open>0x06\<close> or \<open>0x05\<close> the frames the host
  has written are the three of the identification and then, for the 784 blocks of 16
  bytes of the upload region in order, the frame of the block, where the frame of the
  first block (address 0) has no leading \<open>0x06\<close> and the frame of every later block has
  it; when the radio acknowledges with any other byte the upload stops after the frame of
  the first block with the error.
\<close>

theorem C6_upload_frames:
  "(length block = 16 \<longrightarrow>
      KT8900_writeBlock ev address block omit =
        seq (on_backend (tr_write ev
               ((if omit then [] else [0x06]) @
                [of_char (CHR ''X''), of_nat (address div 256), of_nat (address mod 256), 0x10] @
                block)))
          (bind (on_backend (readExactly ev 1 1000)) (\<lambda>ack.
             if ack ! 0 = 0x06 \<or> ack ! 0 = 0x05 then ret ()
             else throw (Error (''Bad ACK writing block 0x'' @ toString16 address @ '': 0x'' @
                           toString16 (unat (ack ! 0))))))) \<and>
   (0x3100 \<le> length data \<and> 0x3e00 \<le> length m \<longrightarrow>
      KT8900_writeCodeplug (kt8900_radio w) data (kt8900_on (radio_start m) True) =
        (if w = 0x06 \<or> w = 0x05
         then (kt8900_on \<lparr>rx = [], mem = m,
                 sent = [MAGIC, [0x06, 0x53, 0x3d, 0xf0, 0x10], [0x06]] @
                        map (upload_frame data) [0..<784]\<rparr> True,
               Inr ())
         else (kt8900_on \<lparr>rx = [], mem = m,
                 sent = [MAGIC, [0x06, 0x53, 0x3d, 0xf0, 0x10], [0x06], upload_frame data 0]\<rparr> True,
               Inl (Error (''Bad ACK writing block 0x0: 0x'' @ toString16 (unat w)))))) \<and>
   upload_frame data 0 = [0x58, 0x00, 0x00, 0x10] @ take 16 data \<and>
   (0 < k \<longrightarrow>
      upload_frame data k =
        [0x06, 0x58, of_nat ((16 * k) div 256), of_nat ((16 * k) mod 256), 0x10] @
        take 16 (drop (16 * k) data))"
proof -
  have run: "KT8900_writeCodeplug (kt8900_radio w) data (kt8900_on (radio_start m) True) =
      (if w = 0x06 \<or> w = 0x05
       then (kt8900_on \<lparr>rx = [], mem = m,
               sent = [MAGIC, [0x06, 0x53, 0x3d, 0xf0, 0x10], [0x06]] @
                      map (upload_frame data) [0..<784]\<rparr> True,
             Inr ())
       else (kt8900_on \<lparr>rx = [], mem = m,
               sent = [MAGIC, [0x06, 0x53, 0x3d, 0xf0, 0x10], [0x06], upload_frame data 0]\<rparr> True,
             Inl (Error (''Bad ACK writing block 0x0: 0x'' @ toString16 (unat w)))))"
    if "0x3100 \<le> length data" "0x3e00 \<le> length m"
  proof -
    have "connected (kt8900_on (radio_start m) True)" "rx (backend (kt8900_on (radio_start m) True)) = []"
      "log (kt8900_on (radio_start m) True) = no_log" "\<not> dryRun (kt8900_on (radio_start m) True)"
      "0x3e00 \<le> length (mem (backend (kt8900_on (radio_start m) True)))"
      using that(2) by (simp_all add: kt8900_on_def radio_start_def)
    from KT8900_writeCodeplug_radio [OF this that(1), of w] show ?thesis
      by (simp only: after_frames_start)
  qed
  show ?thesis
    using run KT8900_writeBlock_frame [of block ev address omit] upload_frame_later [of k data]
    by (simp only: upload_frame_first) blast
qed

theorem C6_upload_frames_witness:
  "length (replicate 16 (0::byte)) = 16 \<and>
   0x3100 \<le> length (replicate 0x3100 (0xff::byte)) \<and> 0x3e00 \<le> length (replicate 0x4000 (0::byte)) \<and>
   (0::nat) < 1 \<and>
   KT8900_writeBlock (kt8900_radio 0x05) 0x20 (replicate 16 0) False
       (kt8900_on (radio_start []) True) =
     (kt8900_on \<lparr>rx = [], mem = [],
        sent = [[0x06, 0x58, 0x00, 0x20, 0x10] @ replicate 16 0]\<rparr> True, Inr ()) \<and>
   KT8900_writeCodeplug (kt8900_radio 0x05) (replicate 0x3100 0xff)
       (kt8900_on (radio_start (replicate 0x4000 0)) True) =
     (kt8900_on \<lparr>rx = [], mem = replicate 0x4000 0,
        sent = [MAGIC, [0x06, 0x53, 0x3d, 0xf0, 0x10], [0x06]] @
               map (upload_frame (replicate 0x3100 0xff)) [0..<784]\<rparr> True,
      Inr ()) \<and>
   upload_frame (replicate 0x3100 0xff) 1 = [0x06, 0x58, 0x00, 0x10, 0x10] @ replicate 16 0xff"
proof -
  note c6 = C6_upload_frames [where block = "replicate 16 0" and ev = "kt8900_radio 0x05"
      and address = "0x20" and omit = False and data = "replicate 0x3100 0xff"
      and m = "replicate 0x4000 0" and w = "0x05" and k = 1]
  have l: "length (replicate 16 (0::byte)) = 16"
    "0x3100 \<le> length (replicate 0x3100 (0xff::byte))" "0x3e00 \<le> length (replicate 0x4000 (0::byte))"
    "(0::nat) < 1"
    by simp_all
  have wb: "KT8900_writeBlock (kt8900_radio 0x05) 0x20 (replicate 16 0) False
       (kt8900_on (radio_start []) True) =
     (kt8900_on \<lparr>rx = [], mem = [],
        sent = [[0x06, 0x58, 0x00, 0x20, 0x10] @ replicate 16 0]\<rparr> True, Inr ())"
    using c6 l(1)
    by (simp add: act_defs on_backend_def kt8900_radio_def radio_write radio_readExactly
        kt8900_on_def radio_start_def kt8900_reply_def MAGIC_def ACK_def
        del: upt_rec_numeral)
  have fr: "upload_frame (replicate 0x3100 0xff) 1 = [0x06, 0x58, 0x00, 0x10, 0x10] @ replicate 16 0xff"
    using c6 l(4) by (simp del: upt_rec_numeral)
  from c6 l(2,3) have
    "KT8900_writeCodeplug (kt8900_radio 0x05) (replicate 0x3100 0xff)
       (kt8900_on (radio_start (replicate 0x4000 0)) True) =
     (kt8900_on \<lparr>rx = [], mem = replicate 0x4000 0,
        sent = [MAGIC, [0x06, 0x53, 0x3d, 0xf0, 0x10], [0x06]] @
               map (upload_frame (replicate 0x3100 0xff)) [0..<784]\<rparr> True,
      Inr ())"
    by (simp del: upt_rec_numeral)
  with l wb fr show ?thesis
    by (intro conjI)
qed

subsection \<open>Reading the image back\<close>

lemma KT8900_readBlock_radio:
  assumes "rx (backend d) = []" "address + 64 \<le> length (mem (backend d))" "address < 65536"
  shows "KT8900_readBlock (kt8900_radio w) address 64 d =
     (after_frames [buildFrame (CHR ''S'') address 64 None] d,
      Inr (slice_js (mem (backend d)) address (address + 64)))"
proof -
  let ?m = "mem (backend d)"
  let ?frame = "buildFrame (CHR ''S'') address 64 None"
  let ?answer = "[ACK, of_char (CHR ''X''), of_nat (drop_bit 8 address AND 0xff),
      of_nat (address AND 0xff), of_nat 64] @ slice_js ?m address (address + 64)"
  have reply: "kt8900_reply w ?m ?frame = ?answer"
    using assms(3) by (simp only: kt_reply_S) 
  have len: "length (kt8900_reply w ?m ?frame) = 1 + 4 + 64"
    using assms(2) by (simp add: reply slice_js_def)
  show ?thesis
    unfolding KT8900_readBlock_def kt8900_radio_def
    by (subst radio_exchange [where reply = "kt8900_reply w" and frame = ?frame and d = d
          and n = "1 + 4 + 64", OF assms(1) len])
      (use assms(3) in \<open>simp add: reply act_defs byte_and addr_or slice_js_from_def
        Let_def\<close>)
qed


lemma u8_set_block:
  assumes "length buffer = length m" "a + n \<le> length m" "take a buffer = take a m"
  shows "\<exists>buffer'. u8_set buffer (slice_js m a (a + n)) a = Inr buffer' \<and>
           length buffer' = length m \<and> take (a + n) buffer' = take (a + n) m"
proof -
  have len: "length (slice_js m a (a + n)) = n"
    using assms(2) by (simp add: slice_js_def)
  let ?b = "take a buffer @ slice_js m a (a + n) @ drop (a + n) buffer"
  have "u8_set buffer (slice_js m a (a + n)) a = Inr ?b"
    using assms(1,2) by (simp add: u8_set_def len)
  moreover have "length ?b = length m"
    using assms(1,2) by (simp add: len)
  moreover have "take (a + n) ?b = take (a + n) m"
    using assms by (simp add: len slice_js_def take_add)
  ultimately show ?thesis by blast
qed

lemma KT8900_readCodeplug_loop_radio:
  assumes "length m = 0x4000"
  shows "rx (backend d) = [] \<Longrightarrow> mem (backend d) = m \<Longrightarrow> length buffer = 0x4000 \<Longrightarrow>
     take (64 * j) buffer = take (64 * j) m \<Longrightarrow> j \<le> 256 \<Longrightarrow> n = 256 - j \<Longrightarrow>
     KT8900_readCodeplug_loop (kt8900_radio w) (64 * j) buffer d =
       (after_frames (map (\<lambda>i. buildFrame (CHR ''S'') (64 * i) 64 None) [j..<256]) d, Inr m)"
proof (induction n arbitrary: j d buffer)
  case 0
  then have "j = 256" by simp
  with 0 assms have "buffer = m" by simp
  with 0 \<open>j = 256\<close> show ?case
    by (subst KT8900_readCodeplug_loop.simps) (simp add: KT8900_MEM_SIZE_def after_frames_nil)
next
  case (Suc n)
  then have j: "j < 256" by simp
  let ?d1 = "after_frames [buildFrame (CHR ''S'') (64 * j) 64 None] d"
  define B where "B = slice_js m (64 * j) (64 * j + 64)"
  have fits: "64 * j + 64 \<le> length m" "64 * j < 65536"
    using j assms by simp_all
  have lt: "64 * j < KT8900_MEM_SIZE"
    using j by (simp add: KT8900_MEM_SIZE_def)
  have cont: "64 * j + KT8900_BLOCK_SIZE = 64 * Suc j"
    by (simp add: KT8900_BLOCK_SIZE_def)
  have block: "KT8900_readBlock (kt8900_radio w) (64 * j) KT8900_BLOCK_SIZE d = (?d1, Inr B)"
    using KT8900_readBlock_radio [OF Suc.prems(1), of "64 * j" w] fits Suc.prems(2)
    by (simp add: KT8900_BLOCK_SIZE_def B_def)
  obtain buffer' where set: "u8_set buffer B (64 * j) = Inr buffer'"
    and len: "length buffer' = length m"
    and pre: "take (64 * j + 64) buffer' = take (64 * j + 64) m"
    using u8_set_block [of buffer m "64 * j" 64] Suc.prems(3,4) assms fits(1)
    unfolding B_def by auto
  have pre': "take (64 * Suc j) buffer' = take (64 * Suc j) m"
    using pre by (simp add: add.commute)
  have rest: "KT8900_readCodeplug_loop (kt8900_radio w) (64 * Suc j) buffer' ?d1 =
      (after_frames (map (\<lambda>i. buildFrame (CHR ''S'') (64 * i) 64 None) [Suc j..<256]) ?d1, Inr m)"
  proof (rule Suc.IH)
    show "rx (backend ?d1) = []" "mem (backend ?d1) = m"
      using Suc.prems(2) by simp_all
    show "length buffer' = 0x4000"
      using len assms by simp
    show "take (64 * Suc j) buffer' = take (64 * Suc j) m"
      by (rule pre')
    show "Suc j \<le> 256" "n = 256 - Suc j"
      using j Suc.prems(6) by simp_all
  qed
  have "KT8900_readCodeplug_loop (kt8900_radio w) (64 * j) buffer d =
      KT8900_readCodeplug_loop (kt8900_radio w) (64 * Suc j) buffer' ?d1"
    by (subst KT8900_readCodeplug_loop.simps)
       (simp only: lt block set cont if_True prod.case sum.case)
  then show ?case
    using j by (simp only: rest after_frames_simps) (simp add: upt_conv_Cons)
qed

lemma KT8900_readCodeplug_radio:
  assumes "connected d" "rx (backend d) = []" "log d = no_log" "length (mem (backend d)) = 0x4000"
  shows "KT8900_readCodeplug (kt8900_radio w) d =
     (after_frames ([MAGIC, [0x06, 0x53, 0x3d, 0xf0, 0x10]] @
                    map (\<lambda>i. buildFrame (CHR ''S'') (64 * i) 64 None) [0..<256]) d,
      Inr (mem (backend d)))"
proof -
  let ?d1 = "after_frames [MAGIC, [0x06, 0x53, 0x3d, 0xf0, 0x10]] d"
  have "0x3e00 \<le> length (mem (backend d))"
    using assms(4) by simp
  from identifyWithRetry_radio [OF assms(2,3) this, of w False]
  have ident: "identifyWithRetry (kt8900_radio w) False d = (?d1, Inr ())"
    by simp
  have start: "KT8900_readCodeplug (kt8900_radio w) d =
      KT8900_readCodeplug_loop (kt8900_radio w) (64 * 0) (replicate KT8900_MEM_SIZE 0) ?d1"
    using assms(1) ident
    by (simp add: KT8900_readCodeplug_def ensureConnected_def act_defs)
  have "KT8900_readCodeplug_loop (kt8900_radio w) (64 * 0) (replicate KT8900_MEM_SIZE 0) ?d1 =
      (after_frames (map (\<lambda>i. buildFrame (CHR ''S'') (64 * i) 64 None) [0..<256]) ?d1,
       Inr (mem (backend d)))"
    by (rule KT8900_readCodeplug_loop_radio [OF assms(4)]) (simp_all add: KT8900_MEM_SIZE_def)
  then show ?thesis
    by (simp only: start after_frames_simps append.simps)
qed


lemma bf_reply_R:
  assumes "a < 65536" "n < 256"
  shows "bf888_reply m (buildHeader (CHR ''R'') a n) =
     buildHeader (CHR ''W'') a n @ slice_js m a (a + n)"
  using assms by (simp add: buildHeader_def byte_and addr_frame unat_of_nat)

lemma bf_reply_ack: "bf888_reply m [ACK] = [ACK]"
  by simp

lemma readUntilAck_radio:
  assumes "rx (backend d) = [ACK]"
  shows "readUntilAck (radio_env reply) ctx 2000 d = Some (after_frames [] d, Inr ())"
proof -
  have now: "Date_now (radio_env reply) d < Date_now (radio_env reply) d + 2000"
    by simp
  have rd: "on_backend (readExactly (radio_env reply) 1
        (max 1 (Date_now (radio_env reply) d + 2000 - Date_now (radio_env reply) d))) d =
      (after_frames [] d, Inr [ACK])"
    using assms by (simp add: on_backend_def radio_readExactly after_frames_def heard_def)
  show ?thesis
    unfolding readUntilAck_def readUntilAck_loop_byte [OF now rd] by simp
qed

lemma BF888_readBlock_radio:
  assumes "rx (backend d) = []" "address + 8 \<le> length (mem (backend d))" "address < 65536"
  shows "BF888_readBlock bf888_radio address 8 d =
     Some (after_frames [buildHeader (CHR ''R'') address 8, [ACK]] d,
           Inr (slice_js (mem (backend d)) address (address + 8)))"
proof -
  let ?m = "mem (backend d)"
  let ?frame = "buildHeader (CHR ''R'') address 8"
  let ?answer = "buildHeader (CHR ''W'') address 8 @ slice_js ?m address (address + 8)"
  let ?d1 = "after_frames [?frame] d"
  have reply: "bf888_reply ?m ?frame = ?answer"
    using assms(3) by (simp only: bf_reply_R) 
  have len: "length ?answer = 4 + 8"
    using assms(2) by (simp add: slice_js_def buildHeader_def)
  have wr: "on_backend (tr_write (radio_env bf888_reply) ?frame) d =
      (d\<lparr>backend := (backend d)\<lparr>rx := ?answer, sent := sent (backend d) @ [?frame]\<rparr>\<rparr>, Inr ())"
    using assms(1) by (simp only: on_backend_def radio_write reply) simp
  have rd: "on_backend (readExactly (radio_env bf888_reply) (4 + 8) 2000)
        (d\<lparr>backend := (backend d)\<lparr>rx := ?answer, sent := sent (backend d) @ [?frame]\<rparr>\<rparr>) =
      (?d1, Inr ?answer)"
    using len by (simp add: on_backend_def radio_readExactly after_frames_def heard_def)
  have hdr: "slice_js ?answer 0 4 = buildHeader (CHR ''W'') address 8"
    "slice_js_from ?answer 4 = slice_js ?m address (address + 8)"
    by (simp_all add: slice_js_def slice_js_from_def buildHeader_def)
  have ack: "on_backend (tr_write (radio_env bf888_reply) [ACK]) ?d1 =
      (?d1\<lparr>backend := (backend ?d1)\<lparr>rx := [ACK], sent := sent (backend ?d1) @ [[ACK]]\<rparr>\<rparr>, Inr ())"
    by (simp add: on_backend_def radio_write)
  have wait: "readUntilAck (radio_env bf888_reply) (''read 0x'' @ toString16 address) 2000
        (?d1\<lparr>backend := (backend ?d1)\<lparr>rx := [ACK], sent := sent (backend ?d1) @ [[ACK]]\<rparr>\<rparr>) =
      Some (after_frames [?frame, [ACK]] d, Inr ())"
    by (subst readUntilAck_radio) (simp_all add: after_frames_def heard_def)
  show ?thesis
    unfolding BF888_readBlock_def bf888_radio_def
    using wr rd ack wait
    by (simp add: pact_defs hdr Let_def)
qed


lemma BF888_readCodeplug_loop_radio:
  assumes "length m = 0x03e0"
  shows "rx (backend d) = [] \<Longrightarrow> mem (backend d) = m \<Longrightarrow> length buffer = 0x03e0 \<Longrightarrow>
     take (8 * j) buffer = take (8 * j) m \<Longrightarrow> j \<le> 124 \<Longrightarrow> n = 124 - j \<Longrightarrow>
     BF888_readCodeplug_loop bf888_radio (8 * j) buffer d =
       Some (after_frames (concat (map (\<lambda>i. [buildHeader (CHR ''R'') (8 * i) 8, [ACK]]) [j..<124])) d,
             Inr m)"
proof (induction n arbitrary: j d buffer)
  case 0
  then have "j = 124" by simp
  with 0 assms have "buffer = m" by simp
  with 0 \<open>j = 124\<close> show ?case
    by (subst BF888_readCodeplug_loop.simps) (simp add: BF888_MEM_SIZE_def after_frames_nil)
next
  case (Suc n)
  then have j: "j < 124" by simp
  let ?d1 = "after_frames [buildHeader (CHR ''R'') (8 * j) 8, [ACK]] d"
  define B where "B = slice_js m (8 * j) (8 * j + 8)"
  have fits: "8 * j + 8 \<le> length m" "8 * j < 65536"
    using j assms by simp_all
  have lt: "8 * j < BF888_MEM_SIZE"
    using j by (simp add: BF888_MEM_SIZE_def)
  have cont: "8 * j + BF888_BLOCK_SIZE = 8 * Suc j"
    by (simp add: BF888_BLOCK_SIZE_def)
  have block: "BF888_readBlock bf888_radio (8 * j) BF888_BLOCK_SIZE d = Some (?d1, Inr B)"
    using BF888_readBlock_radio [OF Suc.prems(1), of "8 * j"] fits Suc.prems(2)
    by (simp add: BF888_BLOCK_SIZE_def B_def)
  obtain buffer' where set: "u8_set buffer B (8 * j) = Inr buffer'"
    and len: "length buffer' = length m"
    and pre: "take (8 * j + 8) buffer' = take (8 * j + 8) m"
    using u8_set_block [of buffer m "8 * j" 8] Suc.prems(3,4) assms fits(1)
    unfolding B_def by auto
  have pre': "take (8 * Suc j) buffer' = take (8 * Suc j) m"
    using pre by (simp add: add.commute)
  have rest: "BF888_readCodeplug_loop bf888_radio (8 * Suc j) buffer' ?d1 =
      Some (after_frames (concat (map (\<lambda>i. [buildHeader (CHR ''R'') (8 * i) 8, [ACK]])
                [Suc j..<124])) ?d1, Inr m)"
  proof (rule Suc.IH)
    show "rx (backend ?d1) = []" "mem (backend ?d1) = m"
      using Suc.prems(2) by simp_all
    show "length buffer' = 0x03e0"
      using len assms by simp
    show "take (8 * Suc j) buffer' = take (8 * Suc j) m"
      by (rule pre')
    show "Suc j \<le> 124" "n = 124 - Suc j"
      using j Suc.prems(6) by simp_all
  qed
  have "BF888_readCodeplug_loop bf888_radio (8 * j) buffer d =
      BF888_readCodeplug_loop bf888_radio (8 * Suc j) buffer' ?d1"
    by (subst BF888_readCodeplug_loop.simps)
       (simp only: lt block set cont if_True prod.case sum.case option.case)
  then show ?case
    using j by (simp only: rest after_frames_simps) (simp add: upt_conv_Cons)
qed

lemma BF888_readCodeplug_radio:
  assumes "connected d" "rx (backend d) = []" "length (mem (backend d)) = 0x03e0"
  shows "BF888_readCodeplug bf888_radio d =
     Some (after_frames (concat (map (\<lambda>i. [buildHeader (CHR ''R'') (8 * i) 8, [ACK]]) [0..<124])) d,
           Inr (mem (backend d)))"
proof -
  have start: "BF888_readCodeplug bf888_radio d =
      BF888_readCodeplug_loop bf888_radio (8 * 0) (replicate BF888_MEM_SIZE 0) d"
    using assms(1) by (simp add: BF888_readCodeplug_def ensureConnected_def act_defs pact_defs)
  show ?thesis
    unfolding start
    by (rule BF888_readCodeplug_loop_radio [OF assms(3) assms(2)]) (simp_all add: BF888_MEM_SIZE_def)
qed

text \<open>The earlier revision of the BF-888 driver reads the same way.\<close>

lemma BF888_strict_readBlock_radio:
  assumes "rx (backend d) = []" "address + 8 \<le> length (mem (backend d))" "address < 65536"
  shows "BF888_strict_readBlock bf888_radio address 8 d =
     (after_frames [buildHeader (CHR ''R'') address 8, [ACK]] d,
      Inr (slice_js (mem (backend d)) address (address + 8)))"
proof -
  let ?m = "mem (backend d)"
  let ?frame = "buildHeader (CHR ''R'') address 8"
  let ?answer = "buildHeader (CHR ''W'') address 8 @ slice_js ?m address (address + 8)"
  let ?d1 = "after_frames [?frame] d"
  have reply: "bf888_reply ?m ?frame = ?answer"
    using assms(3) by (simp only: bf_reply_R)
  have len: "length ?answer = 4 + 8"
    using assms(2) by (simp add: slice_js_def buildHeader_def)
  have wr: "on_backend (tr_write (radio_env bf888_reply) ?frame) d =
      (d\<lparr>backend := (backend d)\<lparr>rx := ?answer, sent := sent (backend d) @ [?frame]\<rparr>\<rparr>, Inr ())"
    using assms(1) by (simp only: on_backend_def radio_write reply) simp
  have rd: "on_backend (readExactly (radio_env bf888_reply) (4 + 8) 2000)
        (d\<lparr>backend := (backend d)\<lparr>rx := ?answer, sent := sent (backend d) @ [?frame]\<rparr>\<rparr>) =
      (?d1, Inr ?answer)"
    using len by (simp add: on_backend_def radio_readExactly after_frames_def heard_def)
  have hdr: "slice_js ?answer 0 4 = buildHeader (CHR ''W'') address 8"
    "slice_js_from ?answer 4 = slice_js ?m address (address + 8)"
    by (simp_all add: slice_js_def slice_js_from_def buildHeader_def)
  have ack: "on_backend (tr_write (radio_env bf888_reply) [ACK]) ?d1 =
      (?d1\<lparr>backend := (backend ?d1)\<lparr>rx := [ACK], sent := sent (backend ?d1) @ [[ACK]]\<rparr>\<rparr>, Inr ())"
    by (simp add: on_backend_def radio_write)
  have byte: "readByte (radio_env bf888_reply)
        (?d1\<lparr>backend := (backend ?d1)\<lparr>rx := [ACK], sent := sent (backend ?d1) @ [[ACK]]\<rparr>\<rparr>) =
      (after_frames [?frame, [ACK]] d, Inr ACK)"
    by (simp add: readByte_def act_defs on_backend_def radio_readExactly after_frames_def heard_def)
  show ?thesis
    unfolding BF888_strict_readBlock_def bf888_radio_def
    using wr rd ack byte
    by (simp add: act_defs hdr Let_def)
qed

lemma BF888_strict_readCodeplug_loop_radio:
  assumes "length m = 0x03e0"
  shows "rx (backend d) = [] \<Longrightarrow> mem (backend d) = m \<Longrightarrow> length buffer = 0x03e0 \<Longrightarrow>
     take (8 * j) buffer = take (8 * j) m \<Longrightarrow> j \<le> 124 \<Longrightarrow> n = 124 - j \<Longrightarrow>
     BF888_strict_readCodeplug_loop bf888_radio (8 * j) buffer d =
       (after_frames (concat (map (\<lambda>i. [buildHeader (CHR ''R'') (8 * i) 8, [ACK]]) [j..<124])) d,
        Inr m)"
proof (induction n arbitrary: j d buffer)
  case 0
  then have "j = 124" by simp
  with 0 assms have "buffer = m" by simp
  with 0 \<open>j = 124\<close> show ?case
    by (subst BF888_strict_readCodeplug_loop.simps) (simp add: BF888_MEM_SIZE_def after_frames_nil)
next
  case (Suc n)
  then have j: "j < 124" by simp
  let ?d1 = "after_frames [buildHeader (CHR ''R'') (8 * j) 8, [ACK]] d"
  define B where "B = slice_js m (8 * j) (8 * j + 8)"
  have fits: "8 * j + 8 \<le> length m" "8 * j < 65536"
    using j assms by simp_all
  have lt: "8 * j < BF888_MEM_SIZE"
    using j by (simp add: BF888_MEM_SIZE_def)
  have cont: "8 * j + BF888_BLOCK_SIZE = 8 * Suc j"
    by (simp add: BF888_BLOCK_SIZE_def)
  have block: "BF888_strict_readBlock bf888_radio (8 * j) BF888_BLOCK_SIZE d = (?d1, Inr B)"
    using BF888_strict_readBlock_radio [OF Suc.prems(1), of "8 * j"] fits Suc.prems(2)
    by (simp add: BF888_BLOCK_SIZE_def B_def)
  obtain buffer' where set: "u8_set buffer B (8 * j) = Inr buffer'"
    and len: "length buffer' = length m"
    and pre: "take (8 * j + 8) buffer' = take (8 * j + 8) m"
    using u8_set_block [of buffer m "8 * j" 8] Suc.prems(3,4) assms fits(1)
    unfolding B_def by auto
  have pre': "take (8 * Suc j) buffer' = take (8 * Suc j) m"
    using pre by (simp add: add.commute)
  have rest: "BF888_strict_readCodeplug_loop bf888_radio (8 * Suc j) buffer' ?d1 =
      (after_frames (concat (map (\<lambda>i. [buildHeader (CHR ''R'') (8 * i) 8, [ACK]])
          [Suc j..<124])) ?d1, Inr m)"
  proof (rule Suc.IH)
    show "rx (backend ?d1) = []" "mem (backend ?d1) = m"
      using Suc.prems(2) by simp_all
    show "length buffer' = 0x03e0"
      using len assms by simp
    show "take (8 * Suc j) buffer' = take (8 * Suc j) m"
      by (rule pre')
    show "Suc j \<le> 124" "n = 124 - Suc j"
      using j Suc.prems(6) by simp_all
  qed
  have "BF888_strict_readCodeplug_loop bf888_radio (8 * j) buffer d =
      BF888_strict_readCodeplug_loop bf888_radio (8 * Suc j) buffer' ?d1"
    by (subst BF888_strict_readCodeplug_loop.simps)
       (simp only: lt block set cont if_True prod.case sum.case)
  then show ?case
    using j by (simp only: rest after_frames_simps) (simp add: upt_conv_Cons)
qed

lemma BF888_strict_readCodeplug_radio:
  assumes "connected d" "rx (backend d) = []" "length (mem (backend d)) = 0x03e0"
  shows "BF888_strict_readCodeplug bf888_radio d =
     (after_frames (concat (map (\<lambda>i. [buildHeader (CHR ''R'') (8 * i) 8, [ACK]]) [0..<124])) d,
      Inr (mem (backend d)))"
proof -
  have start: "BF888_strict_readCodeplug bf888_radio d =
      BF888_strict_readCodeplug_loop bf888_radio (8 * 0) (replicate BF888_MEM_SIZE 0) d"
    using assms(1) by (simp add: BF888_strict_readCodeplug_def ensureConnected_def act_defs)
  show ?thesis
    unfolding start
    by (rule BF888_strict_readCodeplug_loop_radio [OF assms(3) assms(2)])
      (simp_all add: BF888_MEM_SIZE_def)
qed

lemma after_frames_start_bf:
  "after_frames fs (bf888_on (radio_start m) c) = bf888_on \<lparr>rx = [], mem = m, sent = fs\<rparr> c"
  by (simp add: after_frames_def heard_def bf888_on_def radio_start_def)

text \<open>
  C1. \<^verbatim>\<open>readCodeplug\<close> of either driver, run against the simulated radio of its model
  with a memory image \<open>m\<close> of the size of the model (BF-888: \<open>0x03E0\<close> bytes, KT-8900:
  \<open>0x4000\<close> bytes), returns \<open>m\<close> itself: a buffer of that size, equal to the image byte
  for byte. Both revisions of the BF-888 driver do. The frames the host has written are, for the BF-888, a read frame and an ACK
  for each of the 124 blocks of 8 bytes, and for the KT-8900 the two frames of the
  identification and a read frame for each of the 256 blocks of 64 bytes. The simulated
  radios answer as the protocol says: the BF-888 answers a read frame for 8 bytes with
  \<open>['W', addrHi, addrLo, 8]\<close> and the 8 bytes of the image at the address, and an ACK
  with an ACK; the KT-8900 answers a read frame for 64 bytes with
  \<open>[0x06, 'X', addrHi, addrLo, 0x40]\<close> and the 64 bytes of the image at the address.
\<close>

theorem C1_read_back:
  "(length m = 0x03e0 \<longrightarrow>
      BF888_readCodeplug bf888_radio (bf888_on (radio_start m) True) =
        Some (bf888_on \<lparr>rx = [], mem = m,
                sent = concat (map (\<lambda>i. [buildHeader (CHR ''R'') (8 * i) 8, [0x06]]) [0..<124])\<rparr> True,
              Inr m) \<and>
      BF888_strict_readCodeplug bf888_radio (bf888_on (radio_start m) True) =
        (bf888_on \<lparr>rx = [], mem = m,
           sent = concat (map (\<lambda>i. [buildHeader (CHR ''R'') (8 * i) 8, [0x06]]) [0..<124])\<rparr> True,
         Inr m)) \<and>
   (length m = 0x4000 \<longrightarrow>
      KT8900_readCodeplug (kt8900_radio w) (kt8900_on (radio_start m) True) =
        (kt8900_on \<lparr>rx = [], mem = m,
           sent = [MAGIC, [0x06, 0x53, 0x3d, 0xf0, 0x10]] @
                  map (\<lambda>i. buildFrame (CHR ''S'') (64 * i) 64 None) [0..<256]\<rparr> True,
         Inr m)) \<and>
   (a + 8 \<le> length m \<and> a < 0x10000 \<longrightarrow>
      bf888_reply m (buildHeader (CHR ''R'') a 8) =
        [of_char (CHR ''W''), of_nat (a div 256), of_nat (a mod 256), 8] @ take 8 (drop a m) \<and>
      length (take 8 (drop a m)) = 8) \<and>
   bf888_reply m [0x06] = [0x06] \<and>
   (a + 64 \<le> length m \<and> a < 0x10000 \<longrightarrow>
      kt8900_reply w m (buildFrame (CHR ''S'') a 64 None) =
        [0x06, of_char (CHR ''X''), of_nat (a div 256), of_nat (a mod 256), 0x40] @
        take 64 (drop a m) \<and>
      length (take 64 (drop a m)) = 64)"
proof -
  have bf: "BF888_readCodeplug bf888_radio (bf888_on (radio_start m) True) =
      Some (bf888_on \<lparr>rx = [], mem = m,
              sent = concat (map (\<lambda>i. [buildHeader (CHR ''R'') (8 * i) 8, [0x06]]) [0..<124])\<rparr> True,
            Inr m)"
    and bfs: "BF888_strict_readCodeplug bf888_radio (bf888_on (radio_start m) True) =
      (bf888_on \<lparr>rx = [], mem = m,
         sent = concat (map (\<lambda>i. [buildHeader (CHR ''R'') (8 * i) 8, [0x06]]) [0..<124])\<rparr> True,
       Inr m)"
    if "length m = 0x03e0"
  proof -
    have start: "connected (bf888_on (radio_start m) True)"
      "rx (backend (bf888_on (radio_start m) True)) = []"
      "length (mem (backend (bf888_on (radio_start m) True))) = 0x03e0"
      using that by (simp_all add: bf888_on_def radio_start_def)
    from BF888_readCodeplug_radio [OF start]
    show "BF888_readCodeplug bf888_radio (bf888_on (radio_start m) True) =
      Some (bf888_on \<lparr>rx = [], mem = m,
              sent = concat (map (\<lambda>i. [buildHeader (CHR ''R'') (8 * i) 8, [0x06]]) [0..<124])\<rparr> True,
            Inr m)"
      unfolding after_frames_start_bf by (simp add: bf888_on_def radio_start_def ACK_def)
    from BF888_strict_readCodeplug_radio [OF start]
    show "BF888_strict_readCodeplug bf888_radio (bf888_on (radio_start m) True) =
      (bf888_on \<lparr>rx = [], mem = m,
         sent = concat (map (\<lambda>i. [buildHeader (CHR ''R'') (8 * i) 8, [0x06]]) [0..<124])\<rparr> True,
       Inr m)"
      unfolding after_frames_start_bf by (simp add: bf888_on_def radio_start_def ACK_def)
  qed
  have kt: "KT8900_readCodeplug (kt8900_radio w) (kt8900_on (radio_start m) True) =
      (kt8900_on \<lparr>rx = [], mem = m,
         sent = [MAGIC, [0x06, 0x53, 0x3d, 0xf0, 0x10]] @
                map (\<lambda>i. buildFrame (CHR ''S'') (64 * i) 64 None) [0..<256]\<rparr> True,
       Inr m)"
    if "length m = 0x4000"
  proof -
    have "connected (kt8900_on (radio_start m) True)" "rx (backend (kt8900_on (radio_start m) True)) = []"
      "log (kt8900_on (radio_start m) True) = no_log"
      "length (mem (backend (kt8900_on (radio_start m) True))) = 0x4000"
      using that by (simp_all add: kt8900_on_def radio_start_def)
    from KT8900_readCodeplug_radio [OF this, of w] show ?thesis
      unfolding after_frames_start by (simp add: kt8900_on_def radio_start_def)
  qed
  have rb: "bf888_reply m (buildHeader (CHR ''R'') a 8) =
        [of_char (CHR ''W''), of_nat (a div 256), of_nat (a mod 256), 8] @ take 8 (drop a m) \<and>
      length (take 8 (drop a m)) = 8"
    if "a + 8 \<le> length m" "a < 0x10000"
    using that bf_reply_R [of a 8 m]
    by (simp add: buildHeader_def byte_and byte_mod drop_bit_eq_div slice_js_def)
  have rk: "kt8900_reply w m (buildFrame (CHR ''S'') a 64 None) =
        [0x06, of_char (CHR ''X''), of_nat (a div 256), of_nat (a mod 256), 0x40] @
        take 64 (drop a m) \<and>
      length (take 64 (drop a m)) = 64"
    if "a + 64 \<le> length m" "a < 0x10000"
    using that kt_reply_S [of a 64 w m]
    by (simp add: byte_and byte_mod drop_bit_eq_div slice_js_def ACK_def)
  have ra: "bf888_reply m [0x06] = [0x06]"
    by (simp add: ACK_def)
  from bf bfs kt rb rk ra show ?thesis
    by blast
qed


theorem C1_read_back_witness:
  "length (replicate 0x03e0 (0x5a::byte)) = 0x03e0 \<and>
   length (replicate 0x4000 (0xa5::byte)) = 0x4000 \<and>
   (0x10::nat) + 8 \<le> length (replicate 0x03e0 (0x5a::byte)) \<and>
   (0x3fc0::nat) + 64 \<le> length (replicate 0x4000 (0xa5::byte)) \<and>
   map_option snd (BF888_readCodeplug bf888_radio
       (bf888_on (radio_start (replicate 0x03e0 0x5a)) True)) =
     Some (Inr (replicate 0x03e0 0x5a)) \<and>
   snd (BF888_strict_readCodeplug bf888_radio
       (bf888_on (radio_start (replicate 0x03e0 0x5a)) True)) =
     Inr (replicate 0x03e0 0x5a) \<and>
   snd (KT8900_readCodeplug (kt8900_radio 0x06)
       (kt8900_on (radio_start (replicate 0x4000 0xa5)) True)) =
     Inr (replicate 0x4000 0xa5) \<and>
   bf888_reply (replicate 0x03e0 0x5a) (buildHeader (CHR ''R'') 0x10 8) =
     [0x57, 0x00, 0x10, 0x08] @ replicate 8 0x5a \<and>
   kt8900_reply 0x06 (replicate 0x4000 0xa5) (buildFrame (CHR ''S'') 0x3fc0 64 None) =
     [0x06, 0x58, 0x3f, 0xc0, 0x40] @ replicate 64 0xa5"
proof -
  note bf = C1_read_back [where m = "replicate 0x03e0 0x5a" and a = "0x10" and w = "0x06"]
  note kt = C1_read_back [where m = "replicate 0x4000 0xa5" and a = "0x3fc0" and w = "0x06"]
  have l: "length (replicate 0x03e0 (0x5a::byte)) = 0x03e0"
    "length (replicate 0x4000 (0xa5::byte)) = 0x4000"
    "(0x10::nat) + 8 \<le> length (replicate 0x03e0 (0x5a::byte))"
    "(0x3fc0::nat) + 64 \<le> length (replicate 0x4000 (0xa5::byte))"
    by simp_all
  have b1: "map_option snd (BF888_readCodeplug bf888_radio
       (bf888_on (radio_start (replicate 0x03e0 0x5a)) True)) =
     Some (Inr (replicate 0x03e0 0x5a))"
    using bf l(1) by (simp del: upt_rec_numeral)
  have b3: "snd (BF888_strict_readCodeplug bf888_radio
       (bf888_on (radio_start (replicate 0x03e0 0x5a)) True)) =
     Inr (replicate 0x03e0 0x5a)"
    using bf l(1) by (simp del: upt_rec_numeral)
  have k1: "snd (KT8900_readCodeplug (kt8900_radio 0x06)
       (kt8900_on (radio_start (replicate 0x4000 0xa5)) True)) =
     Inr (replicate 0x4000 0xa5)"
    using kt l(2) by (simp del: upt_rec_numeral)
  have b2: "bf888_reply (replicate 0x03e0 0x5a) (buildHeader (CHR ''R'') 0x10 8) =
     [0x57, 0x00, 0x10, 0x08] @ replicate 8 0x5a"
    using bf l(3) by (simp del: upt_rec_numeral)
  have k2: "kt8900_reply 0x06 (replicate 0x4000 0xa5) (buildFrame (CHR ''S'') 0x3fc0 64 None) =
     [0x06, 0x58, 0x3f, 0xc0, 0x40] @ replicate 64 0xa5"
    using kt l(4) by (simp del: upt_rec_numeral)
  from l b1 b3 k1 b2 k2 show ?thesis
    by (intro conjI)
qed

end
